theory Spec2Isabelle
  imports Main
begin

section \<open>Data model\<close>

subsection \<open>Task rows (app/models.py) and status constants (app/schemas.py)\<close>

text \<open>
  \<^verbatim>\<open>TaskStatus\<close> is a class of four string constants and the \<^verbatim>\<open>status\<close> column is a
  \<^verbatim>\<open>String(20)\<close>, so a status is a string here too. A \<^verbatim>\<open>datetime\<close> is an opaque point
  on the integer line. The primary key \<^verbatim>\<open>id\<close> is called \<open>task_id\<close>.
\<close>

type_synonym timestamp = int

definition PENDING :: string where "PENDING = ''PENDING''"
definition PROCESSING :: string where "PROCESSING = ''PROCESSING''"
definition COMPLETED :: string where "COMPLETED = ''COMPLETED''"
definition FAILED :: string where "FAILED = ''FAILED''"

record task =
  task_id :: string
  status :: string
  created_at :: timestamp
  started_at :: "timestamp option"
  completed_at :: "timestamp option"
  original_filename :: string
  upload_path :: string
  file_size_bytes :: int
  file_hash :: "string option"
  export_path :: "string option"
  export_size_bytes :: "int option"
  error_message :: "string option"
  retry_count :: int
  user_ip :: "string option"

subsection \<open>Exceptions\<close>

text \<open>
  The three exception classes of app/core/assetripper.py, and the library exceptions the
  modelled code can meet. \<open>exn_str\<close> is Python's \<^verbatim>\<open>str(e)\<close>; \<open>is_AssetRipperError\<close> is
  what \<^verbatim>\<open>except AssetRipperError\<close> matches (the base class and its two subclasses).
\<close>

datatype exn =
    AssetRipperError string
  | AssetRipperConnectionError string
  | AssetRipperProcessError string
  | FileNotFoundError string
  | FileExistsError string
  | DatabaseError string
  | MultipleResultsFound string
  | AttributeError string

fun exn_str :: "exn \<Rightarrow> string" where
  "exn_str (AssetRipperError m) = m"
| "exn_str (AssetRipperConnectionError m) = m"
| "exn_str (AssetRipperProcessError m) = m"
| "exn_str (FileNotFoundError m) = m"
| "exn_str (FileExistsError m) = m"
| "exn_str (DatabaseError m) = m"
| "exn_str (MultipleResultsFound m) = m"
| "exn_str (AttributeError m) = m"

fun is_AssetRipperError :: "exn \<Rightarrow> bool" where
  "is_AssetRipperError (AssetRipperError m) = True"
| "is_AssetRipperError (AssetRipperConnectionError m) = True"
| "is_AssetRipperError (AssetRipperProcessError m) = True"
| "is_AssetRipperError e = False"

subsection \<open>Decimal rendering of integers in f-strings\<close>

definition digit_char :: "nat \<Rightarrow> char" where
  "digit_char d = (''0123456789'' ! d)"

function str_nat :: "nat \<Rightarrow> string" where
  "str_nat n = (if n < 10 then [digit_char n] else str_nat (n div 10) @ [digit_char (n mod 10)])"
  by pat_completeness auto
termination
  by (relation "measure (\<lambda>n. n)") auto

declare str_nat.simps [simp del]

definition str_int :: "int \<Rightarrow> string" where
  "str_int i = (if i < 0 then CHR ''-'' # str_nat (nat (- i)) else str_nat (nat i))"

subsection \<open>Settings (app/config.py)\<close>

record Settings =
  log_file :: "string option"
  assetripper_host :: "string option"
  assetripper_port :: nat
  assetripper_binary_path :: string
  assetripper_startup_timeout :: nat
  assetripper_health_check_interval :: nat
  upload_dir :: string
  export_dir :: string
  task_load_timeout :: nat
  task_export_timeout :: nat

definition default_settings :: Settings where
  "default_settings =
     \<lparr>log_file = None, assetripper_host = None, assetripper_port = 8765,
      assetripper_binary_path = ''/app/bin/AssetRipper.GUI.Free'',
      assetripper_startup_timeout = 30, assetripper_health_check_interval = 30,
      upload_dir = ''/app/data/uploads'', export_dir = ''/app/data/exports'',
      task_load_timeout = 300, task_export_timeout = 3600\<rparr>"

definition assetripper_base_url :: "Settings \<Rightarrow> string" where
  "assetripper_base_url cfg =
     (case assetripper_host cfg of
        Some h \<Rightarrow> (if h \<noteq> [] then h else ''http://localhost:'' @ str_nat (assetripper_port cfg))
      | None \<Rightarrow> ''http://localhost:'' @ str_nat (assetripper_port cfg))"

subsection \<open>The world outside the two managers\<close>

text \<open>
  Everything the code reaches through a library call is a field of \<open>world\<close>:
  \<^item> \<open>settings\<close>: the global \<^verbatim>\<open>settings\<close> object;
  \<^item> \<open>store\<close>: the rows of table \<^verbatim>\<open>tasks\<close>;
  \<^item> \<open>db_fault_at\<close>, \<open>db_calls\<close>: the \<open>k\<close>-th awaited \<^verbatim>\<open>db.execute\<close> or \<^verbatim>\<open>db.commit\<close> raises
    the exception with text \<open>m\<close> when \<open>db_fault_at k = Some m\<close>;
  \<^item> \<open>now_at\<close>, \<open>now_calls\<close>: the \<open>k\<close>-th call of \<^verbatim>\<open>datetime.utcnow()\<close> returns \<open>now_at k\<close>;
  \<^item> \<open>http_at\<close>, \<open>http_calls\<close>: the outcome of the \<open>k\<close>-th request sent through the client;
    \<open>sent\<close>: the requests sent so far (verb and path, and the \<^verbatim>\<open>path\<close> form field),
    newest last;
  \<^item> \<open>fs\<close>: the file system, a path to the tree found there; \<open>worker_effect_at\<close>: what the
    worker process does to the file system while it serves the \<open>k\<close>-th request;
  \<^item> \<open>spawn_at\<close>, \<open>spawn_calls\<close>: the outcome of the \<open>k\<close>-th \<^verbatim>\<open>create_subprocess_exec\<close>, an
    error text or a process id; \<open>commands\<close>: the command lines given to it, newest last;
  \<^item> \<open>exit_code_at\<close>, \<open>exit_reads\<close>: what the \<open>k\<close>-th look at the child process gives (a read
    of \<^verbatim>\<open>process.returncode\<close>, or the bounded wait for its exit);
  \<^item> \<open>loop_time\<close>: the event loop's clock in seconds, advanced by \<^verbatim>\<open>asyncio.sleep\<close>;
    \<open>slept\<close>: the durations slept so far, newest last, each with the place that slept:
    the interval of the health-check loop, the one-second poll of \<^verbatim>\<open>_wait_for_ready\<close>,
    the backoff of \<^verbatim>\<open>_attempt_restart\<close>, the one-second pause of the dispatch loop after
    an error of its own;
  \<^item> \<open>logs\<close>: the records written through \<^verbatim>\<open>logger\<close>, newest last;
  \<^item> \<open>trace\<close>: an observer's record of the dispatch loop, not a variable of the program:
    \<open>Began t\<close> when \<^verbatim>\<open>_process_task(t)\<close> is entered, \<open>Ended t\<close> when it has returned
    or raised.
  The counters make every call of the source one call of the model; the functions
  indexed by them are the part of the run that the program does not decide.
  A path is the string the source builds; \<open>fs\<close> is asked with that string.
\<close>

datatype fsnode = File nat | Dir "(string \<times> fsnode) list"

datatype http_result =
    Response nat string
  | TimeoutException string
  | RequestError string

datatype level = INFO | WARNING | ERROR | EXCEPTION

datatype dispatch_event = Began string | Ended string

datatype pause = HealthInterval | ReadyPoll | Backoff | WorkerRetry

record world =
  settings :: Settings
  store :: "task list"
  db_fault_at :: "nat \<Rightarrow> string option"
  db_calls :: nat
  now_at :: "nat \<Rightarrow> timestamp"
  now_calls :: nat
  http_at :: "nat \<Rightarrow> http_result"
  http_calls :: nat
  sent :: "(string \<times> string) list"
  fs :: "string \<Rightarrow> fsnode option"
  worker_effect_at :: "nat \<Rightarrow> (string \<Rightarrow> fsnode option) \<Rightarrow> (string \<Rightarrow> fsnode option)"
  spawn_at :: "nat \<Rightarrow> string + nat"
  spawn_calls :: nat
  commands :: "string list list"
  exit_code_at :: "nat \<Rightarrow> int option"
  exit_reads :: nat
  loop_time :: nat
  slept :: "(pause \<times> nat) list"
  logs :: "(level \<times> string) list"
  trace :: "dispatch_event list"

type_synonym 'a res = "(exn + 'a) \<times> world"

definition logger :: "level \<Rightarrow> string \<Rightarrow> world \<Rightarrow> world" where
  "logger l m w = w\<lparr>logs := logs w @ [(l, m)]\<rparr>"

definition utcnow :: "world \<Rightarrow> timestamp \<times> world" where
  "utcnow w = (now_at w (now_calls w), w\<lparr>now_calls := now_calls w + 1\<rparr>)"

text \<open>One awaited database call: it raises or it returns, and it is counted.\<close>

definition db_call :: "world \<Rightarrow> unit res" where
  "db_call w =
     (case db_fault_at w (db_calls w) of
        None \<Rightarrow> (Inr (), w\<lparr>db_calls := db_calls w + 1\<rparr>)
      | Some m \<Rightarrow> (Inl (DatabaseError m), w\<lparr>db_calls := db_calls w + 1\<rparr>))"

text \<open>
  One request through the HTTP client: it is recorded, the worker does to the file
  system what it does while serving it, and the outcome is the next one of \<open>http_at\<close>.
  \<open>is_success\<close> is the test of \<^verbatim>\<open>response.raise_for_status()\<close>.
\<close>

definition http_call :: "string \<Rightarrow> string \<Rightarrow> world \<Rightarrow> http_result \<times> world" where
  "http_call endpoint arg w =
     (http_at w (http_calls w),
      w\<lparr>http_calls := http_calls w + 1,
        sent := sent w @ [(endpoint, arg)],
        fs := worker_effect_at w (http_calls w) (fs w)\<rparr>)"

definition is_success :: "nat \<Rightarrow> bool" where
  "is_success code = (200 \<le> code \<and> code \<le> 299)"

definition sleep :: "pause \<Rightarrow> nat \<Rightarrow> world \<Rightarrow> world" where
  "sleep site d w = w\<lparr>loop_time := loop_time w + d, slept := slept w @ [(site, d)]\<rparr>"

definition backoffs :: "world \<Rightarrow> nat list" where
  "backoffs w = map snd (filter (\<lambda>(site, d). site = Backoff) (slept w))"

definition returncode :: "world \<Rightarrow> int option \<times> world" where
  "returncode w = (exit_code_at w (exit_reads w), w\<lparr>exit_reads := exit_reads w + 1\<rparr>)"

definition spawn :: "string list \<Rightarrow> world \<Rightarrow> (string + nat) \<times> world" where
  "spawn cmd w =
     (spawn_at w (spawn_calls w),
      w\<lparr>spawn_calls := spawn_calls w + 1, commands := commands w @ [cmd]\<rparr>)"

definition exists_path :: "string \<Rightarrow> world \<Rightarrow> bool" where
  "exists_path p w = (fs w p \<noteq> None)"

section \<open>File utilities (app/utils/file_utils.py)\<close>

definition get_task_export_dir :: "Settings \<Rightarrow> string \<Rightarrow> string" where
  "get_task_export_dir cfg tid = export_dir cfg @ ''/'' @ tid"

definition get_task_assets_dir :: "Settings \<Rightarrow> string \<Rightarrow> string" where
  "get_task_assets_dir cfg tid = get_task_export_dir cfg tid @ ''/Assets''"

text \<open>
  \<^verbatim>\<open>directory.rglob("*")\<close> yields every entry below the directory, at any depth, and
  nothing for a path that is a regular file. \<^verbatim>\<open>get_directory_size\<close> walks that sequence
  and adds \<^verbatim>\<open>st_size\<close> of the entries that are regular files.
\<close>

fun rglob :: "fsnode \<Rightarrow> fsnode list"
  and rglob_entries :: "(string \<times> fsnode) list \<Rightarrow> fsnode list" where
  "rglob (File n) = []"
| "rglob (Dir es) = rglob_entries es"
| "rglob_entries [] = []"
| "rglob_entries ((name, c) # es) = c # rglob c @ rglob_entries es"

fun is_file :: "fsnode \<Rightarrow> bool" where
  "is_file (File n) = True"
| "is_file (Dir es) = False"

fun st_size :: "fsnode \<Rightarrow> nat" where
  "st_size (File n) = n"
| "st_size (Dir es) = 4096"

definition get_directory_size :: "string \<Rightarrow> world \<Rightarrow> nat" where
  "get_directory_size directory w =
     (case fs w directory of
        None \<Rightarrow> 0
      | Some d \<Rightarrow>
          fold (\<lambda>item total_size. if is_file item then total_size + st_size item else total_size)
               (rglob d) 0)"

section \<open>Process supervisor (app/core/assetripper.py)\<close>

text \<open>
  \<open>process\<close> is the handle of the child process (its process id), \<open>client\<close> the HTTP
  client (its base URL), \<open>health_check_task\<close> the handle of the health-check coroutine.
  A handle on which \<^verbatim>\<open>cancel()\<close> was called is \<open>Cancelled\<close>.
\<close>

datatype async_task = Active | Cancelled

record AssetRipperManager =
  process :: "nat option"
  client :: "string option"
  health_check_task :: "async_task option"
  is_healthy :: bool
  restart_count :: nat
  max_restarts :: nat
  use_external_host :: bool

definition AssetRipperManager_init :: "Settings \<Rightarrow> AssetRipperManager" where
  "AssetRipperManager_init cfg =
     \<lparr>process = None, client = None, health_check_task = None, is_healthy = False,
      restart_count = 0, max_restarts = 5,
      use_external_host = (case assetripper_host cfg of None \<Rightarrow> False | Some h \<Rightarrow> h \<noteq> [])\<rparr>"

subsection \<open>\<^verbatim>\<open>load_file\<close>, \<^verbatim>\<open>export_primary_content\<close>, \<^verbatim>\<open>reset\<close>\<close>

text \<open>
  The \<^verbatim>\<open>except\<close> clauses are tried in the order of the source: a timeout first (in httpx
  it is a kind of request error), then a failing status, then any other request error.
  The text carried by a \<open>Response\<close> is what httpx puts into the \<^verbatim>\<open>HTTPStatusError\<close> it
  raises for that response.
\<close>

definition load_file :: "AssetRipperManager \<Rightarrow> string \<Rightarrow> world \<Rightarrow> unit res" where
  "load_file mgr file_path w =
     (if client mgr = None then
        (Inl (AssetRipperConnectionError ''AssetRipper client not initialized''), w)
      else
        (case http_call ''POST /LoadFile'' file_path (logger INFO (''Loading file: '' @ file_path) w) of
           (TimeoutException m, w1) \<Rightarrow> (Inl (AssetRipperError (''LoadFile timeout: '' @ m)), w1)
         | (Response code m, w1) \<Rightarrow>
             (if is_success code then
                (Inr (), logger INFO (''File loaded successfully: '' @ file_path) w1)
              else
                (Inl (AssetRipperError
                        (''LoadFile failed with status '' @ str_nat code @ '': '' @ m)), w1))
         | (RequestError m, w1) \<Rightarrow>
             (Inl (AssetRipperConnectionError (''LoadFile request failed: '' @ m)), w1)))"

text \<open>
  \<^verbatim>\<open>Path(export_path).mkdir(parents=True, exist_ok=True)\<close> stands outside the \<^verbatim>\<open>try\<close>: it
  raises when the path is a regular file, and otherwise leaves a directory there.
\<close>

definition mkdir :: "string \<Rightarrow> world \<Rightarrow> unit res" where
  "mkdir p w =
     (case fs w p of
        Some (File n) \<Rightarrow> (Inl (FileExistsError (''[Errno 17] File exists: '' @ p)), w)
      | Some (Dir es) \<Rightarrow> (Inr (), w)
      | None \<Rightarrow> (Inr (), w\<lparr>fs := (fs w)(p \<mapsto> Dir [])\<rparr>))"

definition export_primary_content :: "AssetRipperManager \<Rightarrow> string \<Rightarrow> world \<Rightarrow> unit res" where
  "export_primary_content mgr target w =
     (if client mgr = None then
        (Inl (AssetRipperConnectionError ''AssetRipper client not initialized''), w)
      else
        (case mkdir target (logger INFO (''Exporting to: '' @ target) w) of
           (Inl e, w1) \<Rightarrow> (Inl e, w1)
         | (Inr _, w1) \<Rightarrow>
             (case http_call ''POST /Export/PrimaryContent'' target w1 of
                (TimeoutException m, w2) \<Rightarrow> (Inl (AssetRipperError (''Export timeout: '' @ m)), w2)
              | (Response code m, w2) \<Rightarrow>
                  (if is_success code then
                     (Inr (), logger INFO (''Export completed successfully: '' @ target) w2)
                   else
                     (Inl (AssetRipperError
                             (''Export failed with status '' @ str_nat code @ '': '' @ m)), w2))
              | (RequestError m, w2) \<Rightarrow>
                  (Inl (AssetRipperConnectionError (''Export request failed: '' @ m)), w2))))"

definition reset :: "AssetRipperManager \<Rightarrow> world \<Rightarrow> unit res" where
  "reset mgr w =
     (if client mgr = None then
        (Inl (AssetRipperConnectionError ''AssetRipper client not initialized''), w)
      else
        (case http_call ''POST /Reset'' [] (logger INFO ''Resetting AssetRipper...'' w) of
           (Response code m, w1) \<Rightarrow>
             (if is_success code then (Inr (), logger INFO ''AssetRipper reset successfully'' w1)
              else (Inr (), logger WARNING (''Failed to reset AssetRipper: '' @ m) w1))
         | (TimeoutException m, w1) \<Rightarrow>
             (Inr (), logger WARNING (''Failed to reset AssetRipper: '' @ m) w1)
         | (RequestError m, w1) \<Rightarrow>
             (Inr (), logger WARNING (''Failed to reset AssetRipper: '' @ m) w1)))"

subsection \<open>\<^verbatim>\<open>stop\<close>, \<^verbatim>\<open>_wait_for_ready\<close>, \<^verbatim>\<open>start\<close>\<close>

text \<open>
  In \<^verbatim>\<open>stop\<close> the child is looked at twice: \<^verbatim>\<open>returncode is None\<close>, and, after
  \<^verbatim>\<open>terminate()\<close>, whether it exits within the grace period of 30 seconds (else it is
  killed). Afterwards the handle is dropped and the flag is unhealthy.
\<close>

definition AssetRipperManager_stop :: "AssetRipperManager \<Rightarrow> world \<Rightarrow> AssetRipperManager \<times> world" where
  "AssetRipperManager_stop mgr w =
     (let w1 = logger INFO ''Stopping AssetRipper...'' w;
          mgr1 = (case health_check_task mgr of
                    Some h \<Rightarrow> mgr\<lparr>health_check_task := Some Cancelled\<rparr>
                  | None \<Rightarrow> mgr);
          mgr2 = (case client mgr1 of Some c \<Rightarrow> mgr1\<lparr>client := None\<rparr> | None \<Rightarrow> mgr1);
          w2 = (if \<not> use_external_host mgr2 \<and> process mgr2 \<noteq> None then
                  (case returncode w1 of
                     (Some code, w') \<Rightarrow> w'
                   | (None, w') \<Rightarrow>
                       (case returncode w' of
                          (Some code, w'') \<Rightarrow> logger INFO ''AssetRipper stopped gracefully'' w''
                        | (None, w'') \<Rightarrow>
                            logger INFO ''AssetRipper killed''
                              (logger WARNING ''AssetRipper did not stop gracefully, killing...'' w'')))
                else w1)
      in (mgr2\<lparr>process := None, is_healthy := False\<rparr>, w2))"

text \<open>
  The polling loop of \<^verbatim>\<open>_wait_for_ready\<close>. Time is counted in whole seconds and moves
  only in \<^verbatim>\<open>asyncio.sleep\<close>; every pass that does not return sleeps one second, so
  the deadline is reached and the loop ends.
\<close>

function wait_for_ready_loop ::
  "AssetRipperManager \<Rightarrow> nat \<Rightarrow> nat \<Rightarrow> world \<Rightarrow> (exn + unit) \<times> AssetRipperManager \<times> world" where
  "wait_for_ready_loop mgr start_time timeout w =
     (let (died, w1) = (if \<not> use_external_host mgr \<and> process mgr \<noteq> None then returncode w
                        else (None, w))
      in case died of
           Some code \<Rightarrow>
             (Inl (AssetRipperProcessError
                     (''AssetRipper process died with code '' @ str_int code)), mgr, w1)
         | None \<Rightarrow>
             (if loop_time w1 - start_time > timeout then
                (Inl (AssetRipperProcessError
                        (''AssetRipper did not become ready within '' @ str_nat timeout
                         @ '' seconds'')), mgr, w1)
              else
                (case http_call ''GET /'' [] w1 of
                   (Response code m, w2) \<Rightarrow>
                     (if code = 200 then (Inr (), mgr\<lparr>is_healthy := True\<rparr>, w2)
                      else wait_for_ready_loop mgr start_time timeout (sleep ReadyPoll 1 w2))
                 | (TimeoutException m, w2) \<Rightarrow>
                     wait_for_ready_loop mgr start_time timeout (sleep ReadyPoll 1 w2)
                 | (RequestError m, w2) \<Rightarrow>
                     wait_for_ready_loop mgr start_time timeout (sleep ReadyPoll 1 w2))))"
  by pat_completeness auto
termination
  by (relation "measure (\<lambda>(mgr, start_time, timeout, w). start_time + timeout + 1 - loop_time w)")
     (auto simp: returncode_def http_call_def sleep_def split: if_splits)


declare wait_for_ready_loop.simps [simp del]

definition wait_for_ready ::
  "AssetRipperManager \<Rightarrow> world \<Rightarrow> (exn + unit) \<times> AssetRipperManager \<times> world" where
  "wait_for_ready mgr w =
     wait_for_ready_loop mgr (loop_time w) (assetripper_startup_timeout (settings w))
       (logger INFO ''Waiting for AssetRipper to be ready...'' w)"

definition AssetRipperManager_start ::
  "AssetRipperManager \<Rightarrow> world \<Rightarrow> (exn + unit) \<times> AssetRipperManager \<times> world" where
  "AssetRipperManager_start mgr w =
     (let cfg = settings w;
          launched =
            (if use_external_host mgr then
               (Inr (), mgr,
                logger INFO (''Using external AssetRipper at ''
                             @ (case assetripper_host cfg of Some h \<Rightarrow> h | None \<Rightarrow> ''None'')) w)
             else
               (let cmd = [assetripper_binary_path cfg, ''--port'', str_nat (assetripper_port cfg),
                           ''--launch-browser=false'', ''--log'']
                          @ (case log_file cfg of
                               Some f \<Rightarrow> (if f \<noteq> [] then [''--log-path'', f @ ''.assetripper''] else [])
                             | None \<Rightarrow> [])
                in case spawn cmd (logger INFO ''Starting AssetRipper process...'' w) of
                     (Inl m, w1) \<Rightarrow>
                       (Inl (AssetRipperProcessError (''Failed to start AssetRipper: '' @ m)), mgr, w1)
                   | (Inr pid, w1) \<Rightarrow>
                       (Inr (), mgr\<lparr>process := Some pid\<rparr>,
                        logger INFO (''AssetRipper process started with PID '' @ str_nat pid) w1)))
      in case launched of
           (Inl e, mgr1, w1) \<Rightarrow> (Inl e, mgr1, w1)
         | (Inr _, mgr1, w1) \<Rightarrow>
             (case wait_for_ready (mgr1\<lparr>client := Some (assetripper_base_url cfg)\<rparr>) w1 of
                (Inl e, mgr2, w2) \<Rightarrow> (Inl e, mgr2, w2)
              | (Inr _, mgr2, w2) \<Rightarrow>
                  (Inr (), mgr2\<lparr>health_check_task := Some Active\<rparr>,
                   logger INFO ''AssetRipper is ready'' w2)))"

subsection \<open>\<^verbatim>\<open>_attempt_restart\<close> and one pass of \<^verbatim>\<open>_health_check_loop\<close>\<close>

text \<open>
  \<^verbatim>\<open>start\<close> changes the manager before it raises, so a failed restart returns the
  manager as \<^verbatim>\<open>start\<close> left it. \<open>health_check_iteration\<close> is the body of the
  \<^verbatim>\<open>while True\<close> loop; a missing client makes \<^verbatim>\<open>self.client.get\<close> raise, which the
  outer handler of the loop logs.
\<close>

definition attempt_restart :: "AssetRipperManager \<Rightarrow> world \<Rightarrow> AssetRipperManager \<times> world" where
  "attempt_restart mgr w =
     (if restart_count mgr \<ge> max_restarts mgr then
        (mgr, logger ERROR (''Max restart attempts ('' @ str_nat (max_restarts mgr)
                            @ '') reached, giving up'') w)
      else
        (let mgr1 = mgr\<lparr>restart_count := restart_count mgr + 1\<rparr>;
             w1 = logger INFO (''Attempting to restart AssetRipper (attempt ''
                               @ str_nat (restart_count mgr1) @ ''/''
                               @ str_nat (max_restarts mgr1) @ '')...'') w;
             (mgr2, w2) = AssetRipperManager_stop mgr1 w1;
             w3 = sleep Backoff (2 ^ restart_count mgr2) w2
         in case AssetRipperManager_start mgr2 w3 of
              (Inr _, mgr3, w4) \<Rightarrow>
                (mgr3\<lparr>restart_count := 0\<rparr>, logger INFO ''AssetRipper restarted successfully'' w4)
            | (Inl e, mgr3, w4) \<Rightarrow>
                (mgr3, logger EXCEPTION (''Failed to restart AssetRipper: '' @ exn_str e) w4)))"

definition health_check_iteration ::
  "AssetRipperManager \<Rightarrow> world \<Rightarrow> AssetRipperManager \<times> world" where
  "health_check_iteration mgr w =
     (let w1 = sleep HealthInterval (assetripper_health_check_interval (settings w)) w;
          (dead, w2) = (if \<not> use_external_host mgr then
                          (case process mgr of
                             None \<Rightarrow> (True, w1)
                           | Some pid \<Rightarrow> (case returncode w1 of (rc, w') \<Rightarrow> (rc \<noteq> None, w')))
                        else (False, w1))
      in if dead then
           attempt_restart (mgr\<lparr>is_healthy := False\<rparr>)
             (logger ERROR ''AssetRipper process is not running'' w2)
         else
           (case client mgr of
              None \<Rightarrow>
                (mgr, logger EXCEPTION (''Error in health check loop: ''
                                        @ exn_str (AttributeError
                                            ([CHR 0x27] @ ''NoneType'' @ [CHR 0x27]
                                             @ '' object has no attribute ''
                                             @ [CHR 0x27] @ ''get'' @ [CHR 0x27]))) w2)
            | Some c \<Rightarrow>
                (case http_call ''GET /'' [] w2 of
                   (Response code m, w3) \<Rightarrow>
                     (if code = 200 then (mgr\<lparr>is_healthy := True\<rparr>, w3)
                      else (mgr\<lparr>is_healthy := False\<rparr>,
                            logger WARNING (''AssetRipper health check failed: status ''
                                            @ str_nat code) w3))
                 | (TimeoutException m, w3) \<Rightarrow>
                     (let mgr1 = mgr\<lparr>is_healthy := False\<rparr>;
                          w4 = logger WARNING (''AssetRipper health check failed: '' @ m) w3
                      in if \<not> use_external_host mgr1 then attempt_restart mgr1 w4 else (mgr1, w4))
                 | (RequestError m, w3) \<Rightarrow>
                     (let mgr1 = mgr\<lparr>is_healthy := False\<rparr>;
                          w4 = logger WARNING (''AssetRipper health check failed: '' @ m) w3
                      in if \<not> use_external_host mgr1 then attempt_restart mgr1 w4 else (mgr1, w4)))))"

subsection \<open>Passes of the health-check loop in sequence\<close>



section \<open>Task queue manager (app/core/task_queue.py)\<close>

text \<open>
  \<open>queue\<close> is the \<^verbatim>\<open>asyncio.Queue()\<close> (no \<^verbatim>\<open>maxsize\<close>, so unbounded), head first.
  \<open>worker_task\<close> is the handle of the dispatch coroutine, when one was created.
\<close>

record TaskQueueManager =
  queue :: "string list"
  worker_task :: "async_task option"
  current_task_id :: "string option"
  running :: bool

definition TaskQueueManager_init :: TaskQueueManager where
  "TaskQueueManager_init =
     \<lparr>queue = [], worker_task = None, current_task_id = None, running = False\<rparr>"

subsection \<open>\<^verbatim>\<open>_mark_task_failed\<close>\<close>

text \<open>
  \<^verbatim>\<open>UPDATE tasks SET status, completed_at, error_message WHERE id = task_id\<close>, then commit.
  \<^verbatim>\<open>datetime.utcnow()\<close> is an argument of the statement, so the clock is read before the
  statement is executed. A fault of either call leaves the table as it was.
\<close>

definition set_failed :: "timestamp \<Rightarrow> string \<Rightarrow> task \<Rightarrow> task" where
  "set_failed now msg t =
     t\<lparr>status := FAILED, completed_at := Some now, error_message := Some msg\<rparr>"

definition update_where_id :: "string \<Rightarrow> (task \<Rightarrow> task) \<Rightarrow> task list \<Rightarrow> task list" where
  "update_where_id tid f rows = map (\<lambda>t. if task_id t = tid then f t else t) rows"

definition mark_task_failed :: "string \<Rightarrow> string \<Rightarrow> world \<Rightarrow> unit res" where
  "mark_task_failed tid msg w =
     (let (now, w1) = utcnow w in
      case db_call w1 of
        (Inl e, w2) \<Rightarrow> (Inl e, w2)
      | (Inr _, w2) \<Rightarrow>
          (case db_call w2 of
             (Inl e, w3) \<Rightarrow> (Inl e, w3)
           | (Inr _, w3) \<Rightarrow>
               (Inr (),
                logger INFO (''Task '' @ tid @ '' marked as FAILED'')
                  (w3\<lparr>store := update_where_id tid (set_failed now msg) (store w3)\<rparr>))))"

subsection \<open>\<^verbatim>\<open>_recover_interrupted_tasks\<close>, \<^verbatim>\<open>start\<close>, \<^verbatim>\<open>stop\<close>, \<^verbatim>\<open>add_task\<close>\<close>

text \<open>
  The \<^verbatim>\<open>for\<close> loop over the selected rows: each row gets its own clock reading.
  The rows are objects of the session; \<^verbatim>\<open>db.commit()\<close> then writes every changed object
  back to the row with its primary key (\<open>flush\<close>).
\<close>

definition recovery_message :: string where
  "recovery_message = ''Interrupted by container restart''"

fun interrupt_all :: "task list \<Rightarrow> world \<Rightarrow> task list \<times> world" where
  "interrupt_all [] w = ([], w)"
| "interrupt_all (t # ts) w =
     (let (now, w1) = utcnow w;
          (ts', w2) = interrupt_all ts w1
      in (t\<lparr>status := FAILED, completed_at := Some now,
             error_message := Some recovery_message\<rparr> # ts', w2))"

definition flush :: "task list \<Rightarrow> task list \<Rightarrow> task list" where
  "flush changed rows =
     map (\<lambda>r. case find (\<lambda>u. task_id u = task_id r) changed of
                 Some u \<Rightarrow> u
               | None \<Rightarrow> r) rows"

definition recover_interrupted_tasks :: "world \<Rightarrow> unit res" where
  "recover_interrupted_tasks w =
     (case db_call w of
        (Inl e, w1) \<Rightarrow> (Inl e, w1)
      | (Inr _, w1) \<Rightarrow>
          (let interrupted_tasks = filter (\<lambda>t. status t = PROCESSING) (store w1) in
           if interrupted_tasks \<noteq> [] then
             (let w2 = logger INFO (''Found '' @ str_nat (length interrupted_tasks)
                                     @ '' interrupted tasks, marking as FAILED'') w1;
                  (changed, w3) = interrupt_all interrupted_tasks w2
              in case db_call w3 of
                   (Inl e, w4) \<Rightarrow> (Inl e, w4)
                 | (Inr _, w4) \<Rightarrow>
                     (Inr (),
                      logger INFO (''Marked '' @ str_nat (length interrupted_tasks)
                                   @ '' interrupted tasks as FAILED'')
                        (w4\<lparr>store := flush changed (store w4)\<rparr>)))
           else (Inr (), w1)))"

text \<open>
  \<^verbatim>\<open>start\<close> creates the dispatch coroutine and then awaits the recovery. The dispatch
  coroutine is only recorded as created here: what it does is \<open>worker_iteration\<close> below.
\<close>

definition TaskQueueManager_start :: "TaskQueueManager \<Rightarrow> world \<Rightarrow> (exn + unit) \<times> TaskQueueManager \<times> world" where
  "TaskQueueManager_start qm w =
     (if running qm then
        (Inr (), qm, logger WARNING ''Task queue worker already running'' w)
      else
        (let qm1 = qm\<lparr>running := True, worker_task := Some Active\<rparr>;
             w1 = logger INFO ''Task queue worker started'' w
         in case recover_interrupted_tasks w1 of (r, w2) \<Rightarrow> (r, qm1, w2)))"

definition TaskQueueManager_stop :: "TaskQueueManager \<Rightarrow> world \<Rightarrow> TaskQueueManager \<times> world" where
  "TaskQueueManager_stop qm w =
     (if \<not> running qm then (qm, w)
      else
        (let qm1 = qm\<lparr>running := False\<rparr>;
             qm2 = (case worker_task qm1 of
                      Some _ \<Rightarrow> qm1\<lparr>worker_task := Some Cancelled\<rparr>
                    | None \<Rightarrow> qm1)
         in (qm2, logger INFO ''Task queue worker stopped'' w)))"

definition add_task :: "TaskQueueManager \<Rightarrow> string \<Rightarrow> world \<Rightarrow> TaskQueueManager \<times> world" where
  "add_task qm tid w =
     (let qm1 = qm\<lparr>queue := queue qm @ [tid]\<rparr>
      in (qm1, logger INFO (''Task '' @ tid @ '' added to queue (queue size: ''
                            @ str_nat (length (queue qm1)) @ '')'') w))"

definition get_queue_size :: "TaskQueueManager \<Rightarrow> nat" where
  "get_queue_size qm = length (queue qm)"

definition get_current_task_id :: "TaskQueueManager \<Rightarrow> string option" where
  "get_current_task_id qm = current_task_id qm"

subsection \<open>\<^verbatim>\<open>_process_task\<close>\<close>

text \<open>
  \<open>process_steps\<close> is the body of the \<^verbatim>\<open>try\<close> statement, \<open>process_task\<close> the method:
  the fetch of the row and the guard on its status, the transition to PROCESSING,
  the body, and the two handlers. \<^verbatim>\<open>scalar_one_or_none()\<close> raises when more than one
  row has the identifier. The row read before the commit is the object the body uses
  afterwards. Paths in the settings and in the rows are absolute, as the upload
  endpoint and the defaults of app/config.py make them, so \<^verbatim>\<open>.absolute()\<close> returns the
  path itself. An exception that a handler raises leaves the method.
\<close>

definition set_processing :: "timestamp \<Rightarrow> task \<Rightarrow> task" where
  "set_processing now t = t\<lparr>status := PROCESSING, started_at := Some now\<rparr>"

definition set_completed :: "timestamp \<Rightarrow> string \<Rightarrow> nat \<Rightarrow> task \<Rightarrow> task" where
  "set_completed now path sz t =
     t\<lparr>status := COMPLETED, completed_at := Some now, export_path := Some path,
       export_size_bytes := Some (int sz), error_message := None\<rparr>"

definition process_steps :: "AssetRipperManager \<Rightarrow> string \<Rightarrow> task \<Rightarrow> world \<Rightarrow> unit res" where
  "process_steps mgr tid t w =
     (if \<not> exists_path (upload_path t) w then
        (Inl (FileNotFoundError (''Upload file not found: '' @ upload_path t)), w)
      else
        (case load_file mgr (upload_path t)
                (logger INFO (''Task '' @ tid @ '': Loading file into AssetRipper: ''
                              @ upload_path t) w) of
           (Inl e, w1) \<Rightarrow> (Inl e, w1)
         | (Inr _, w1) \<Rightarrow>
             (let export_to = get_task_export_dir (settings w1) tid in
              case export_primary_content mgr export_to
                     (logger INFO (''Task '' @ tid @ '': Exporting to: '' @ export_to) w1) of
                (Inl e, w2) \<Rightarrow> (Inl e, w2)
              | (Inr _, w2) \<Rightarrow>
                  (let assets_dir = get_task_assets_dir (settings w2) tid in
                   if \<not> exists_path assets_dir w2 then
                     (Inl (FileNotFoundError
                             (''Assets directory not found after export: '' @ assets_dir)), w2)
                   else
                     (let export_size = get_directory_size assets_dir w2;
                          w3 = logger INFO (''Task '' @ tid @ '': Export size: ''
                                            @ str_nat export_size @ '' bytes'') w2;
                          w4 = (case reset mgr w3 of
                                  (Inr _, w') \<Rightarrow> w'
                                | (Inl e, w') \<Rightarrow>
                                    logger WARNING (''Failed to reset AssetRipper after task ''
                                                    @ tid @ '': '' @ exn_str e) w');
                          (now, w5) = utcnow w4
                      in case db_call w5 of
                           (Inl e, w6) \<Rightarrow> (Inl e, w6)
                         | (Inr _, w6) \<Rightarrow>
                             (case db_call w6 of
                                (Inl e, w7) \<Rightarrow> (Inl e, w7)
                              | (Inr _, w7) \<Rightarrow>
                                  (Inr (),
                                   logger INFO (''Task '' @ tid @ '' completed successfully'')
                                     (w7\<lparr>store := update_where_id tid
                                            (set_completed now assets_dir export_size)
                                            (store w7)\<rparr>))))))))"

definition process_task :: "AssetRipperManager \<Rightarrow> string \<Rightarrow> world \<Rightarrow> unit res" where
  "process_task mgr tid w =
     (case db_call w of
        (Inl e, w1) \<Rightarrow> (Inl e, w1)
      | (Inr _, w1) \<Rightarrow>
          (case filter (\<lambda>t. task_id t = tid) (store w1) of
             [] \<Rightarrow> (Inr (), logger ERROR (''Task '' @ tid @ '' not found in database'') w1)
           | [t] \<Rightarrow>
               (if status t \<noteq> PENDING then
                  (Inr (), logger WARNING (''Task '' @ tid @ '' is not PENDING (status: ''
                                           @ status t @ ''), skipping'') w1)
                else
                  (let (now, w2) = utcnow w1 in
                   case db_call w2 of
                     (Inl e, w3) \<Rightarrow> (Inl e, w3)
                   | (Inr _, w3) \<Rightarrow>
                       (case process_steps mgr tid (set_processing now t)
                               (logger INFO (''Task '' @ tid @ '' started processing'')
                                  (w3\<lparr>store := update_where_id tid (set_processing now)
                                                   (store w3)\<rparr>)) of
                          (Inr _, w4) \<Rightarrow> (Inr (), w4)
                        | (Inl e, w4) \<Rightarrow>
                            (if is_AssetRipperError e then
                               (case mark_task_failed tid (''AssetRipper error: '' @ exn_str e)
                                       (logger ERROR (''Task '' @ tid
                                          @ '' failed due to AssetRipper error: '' @ exn_str e) w4) of
                                  (Inl e', w5) \<Rightarrow> (Inl e', w5)
                                | (Inr _, w5) \<Rightarrow>
                                    (case reset mgr w5 of
                                       (Inr _, w6) \<Rightarrow> (Inr (), w6)
                                     | (Inl reset_error, w6) \<Rightarrow>
                                         (Inr (), logger ERROR (''Failed to reset AssetRipper: ''
                                                                @ exn_str reset_error) w6)))
                             else
                               mark_task_failed tid (''Unexpected error: '' @ exn_str e)
                                 (logger EXCEPTION (''Task '' @ tid
                                    @ '' failed with unexpected error: '' @ exn_str e) w4)))))
           | t # t' # ts \<Rightarrow>
               (Inl (MultipleResultsFound
                       ''Multiple rows were found when one or none was required''), w1)))"

subsection \<open>One pass of the dispatch loop \<^verbatim>\<open>_worker\<close>\<close>

text \<open>
  The body of \<^verbatim>\<open>while self._running\<close>: with an empty queue the bounded wait of one
  second expires and the loop goes on; otherwise the head of the queue is taken, the
  pipeline runs to its end, an exception that leaves it is turned into a failure write,
  and \<^verbatim>\<open>finally\<close> clears \<open>current_task_id\<close>. An exception of the failure write itself
  reaches the outer handler, which logs it and sleeps a second.
\<close>

definition worker_iteration ::
  "AssetRipperManager \<Rightarrow> TaskQueueManager \<Rightarrow> world \<Rightarrow> TaskQueueManager \<times> world" where
  "worker_iteration mgr qm w =
     (if \<not> running qm then (qm, w)
      else case queue qm of
        [] \<Rightarrow> (qm, w\<lparr>loop_time := loop_time w + 1\<rparr>)
      | tid # rest \<Rightarrow>
          (let w1 = logger INFO (''Processing task '' @ tid) w;
               (r, w2) = process_task mgr tid (w1\<lparr>trace := trace w1 @ [Began tid]\<rparr>);
               w3 = w2\<lparr>trace := trace w2 @ [Ended tid]\<rparr>;
               qm' = qm\<lparr>queue := rest, current_task_id := None\<rparr>
           in case r of
                Inr _ \<Rightarrow> (qm', w3)
              | Inl e \<Rightarrow>
                  (case mark_task_failed tid (exn_str e)
                          (logger EXCEPTION (''Error processing task '' @ tid @ '': '' @ exn_str e) w3) of
                     (Inr _, w4) \<Rightarrow> (qm', w4)
                   | (Inl e', w4) \<Rightarrow>
                       (qm', sleep WorkerRetry 1 (logger EXCEPTION (''Unexpected error in worker loop: ''
                                                        @ exn_str e') w4)))))"

section \<open>The size of an export, in the words of the specification\<close>

text \<open>
  Written from the specification, to compare \<open>get_directory_size\<close> with: the sum of the
  sizes of all regular files under a directory, at any depth. \<open>tree_size\<close> is the sum
  for a tree, \<open>files_size_under\<close> the sum over what lies under a path (nothing lies
  under a regular file).
\<close>

fun tree_size :: "fsnode \<Rightarrow> nat"
  and entries_size :: "(string \<times> fsnode) list \<Rightarrow> nat" where
  "tree_size (File n) = n"
| "tree_size (Dir es) = entries_size es"
| "entries_size [] = 0"
| "entries_size ((name, c) # es) = tree_size c + entries_size es"

definition files_size_under :: "fsnode \<Rightarrow> nat" where
  "files_size_under d = (case d of File n \<Rightarrow> 0 | Dir es \<Rightarrow> entries_size es)"

section \<open>Runs of the queue manager\<close>

text \<open>
  What an observer sees of a running queue manager is a sequence of two kinds of steps:
  a caller enqueues an identifier, or the dispatch loop makes one pass. A pass is
  given the supervisor as it is at that moment (the health-check loop may have changed
  it in between). The pipeline never reads the queue, so an enqueue that arrives while
  a pass is waiting on the worker has the effect of one that arrives just after it.
  \<open>enqueued\<close> lists the identifiers in the order of their enqueueing;
  \<open>invocations tids\<close> is the record of pipeline invocations that run one after the
  other, each ended before the next begins.
\<close>

datatype action = Enqueue string | Dispatch AssetRipperManager

fun run :: "action list \<Rightarrow> TaskQueueManager \<times> world \<Rightarrow> TaskQueueManager \<times> world" where
  "run [] s = s"
| "run (Enqueue tid # acts) (qm, w) = run acts (add_task qm tid w)"
| "run (Dispatch mgr # acts) (qm, w) = run acts (worker_iteration mgr qm w)"

fun enqueued :: "action list \<Rightarrow> string list" where
  "enqueued [] = []"
| "enqueued (Enqueue tid # acts) = tid # enqueued acts"
| "enqueued (Dispatch mgr # acts) = enqueued acts"

definition invocations :: "string list \<Rightarrow> dispatch_event list" where
  "invocations tids = concat (map (\<lambda>t. [Began t, Ended t]) tids)"

section \<open>Concrete runs\<close>

text \<open>
  A world in which nothing goes wrong (no database fault, every request answered with
  200, the clock at \<open>1000 + k\<close> on its \<open>k\<close>-th reading), and a row with given identifier
  and status. The closed theorems below are evaluated on variations of these.
\<close>

definition calm_world :: world where
  "calm_world =
     \<lparr>settings = default_settings,
      store = [], db_fault_at = (\<lambda>k. None), db_calls = 0,
      now_at = (\<lambda>k. 1000 + int k), now_calls = 0,
      http_at = (\<lambda>k. Response 200 []), http_calls = 0, sent = [],
      fs = (\<lambda>p. None), worker_effect_at = (\<lambda>k f. f),
      spawn_at = (\<lambda>k. Inr 4242), spawn_calls = 0, commands = [],
      exit_code_at = (\<lambda>k. None), exit_reads = 0,
      loop_time = 0, slept = [], logs = [], trace = []\<rparr>"

definition row :: "string \<Rightarrow> string \<Rightarrow> task" where
  "row tid st =
     \<lparr>task_id = tid, status = st, created_at = 900, started_at = None, completed_at = None,
      original_filename = ''game.zip'', upload_path = ''/app/data/uploads/'' @ tid @ ''/game.zip'',
      file_size_bytes = 2048, file_hash = None, export_path = None, export_size_bytes = None,
      error_message = None, retry_count = 0, user_ip = None\<rparr>"

text \<open>
  A supervisor after a successful \<^verbatim>\<open>start()\<close> in self-managed mode, and a world for the
  scenario of the specification: task \<open>t1\<close> is PENDING, its upload is on disk, and the
  worker, serving the export request, leaves three files of 500, 600 and 100 bytes
  under the output subdirectory.
\<close>

definition ready_manager :: AssetRipperManager where
  "ready_manager =
     (AssetRipperManager_init default_settings)
       \<lparr>process := Some 4242, client := Some ''http://localhost:8765'',
        health_check_task := Some Active, is_healthy := True\<rparr>"

definition exported_assets :: fsnode where
  "exported_assets =
     Dir [(''icon.png'', File 500),
          (''Scenes'', Dir [(''main.unity'', File 600), (''main.unity.meta'', File 100)])]"

definition export_world :: world where
  "export_world =
     calm_world
       \<lparr>store := [row ''t1'' PENDING],
        fs := (\<lambda>p. if p = ''/app/data/uploads/t1/game.zip'' then Some (File 2048) else None),
        worker_effect_at :=
          (\<lambda>k f. if k = 1 then f(''/app/data/exports/t1/Assets'' \<mapsto> exported_assets) else f)\<rparr>"

definition two_uploads :: world where
  "two_uploads = calm_world\<lparr>store := [row ''a'' PENDING, row ''b'' PENDING]\<rparr>"



section \<open>Properties\<close>

subsection \<open>Auxiliary facts\<close>

lemma status_neq [simp]:
  "PENDING \<noteq> PROCESSING" "PROCESSING \<noteq> PENDING" "PENDING \<noteq> COMPLETED" "COMPLETED \<noteq> PENDING"
  "PENDING \<noteq> FAILED" "FAILED \<noteq> PENDING" "PROCESSING \<noteq> COMPLETED" "COMPLETED \<noteq> PROCESSING"
  "PROCESSING \<noteq> FAILED" "FAILED \<noteq> PROCESSING" "COMPLETED \<noteq> FAILED" "FAILED \<noteq> COMPLETED"
  by (simp_all add: PENDING_def PROCESSING_def COMPLETED_def FAILED_def)

lemma fold_rglob:
  "fold (\<lambda>item total. if is_file item then total + st_size item else total) (rglob d) acc
     = acc + files_size_under d"
  "fold (\<lambda>item total. if is_file item then total + st_size item else total) (rglob_entries es) acc
     = acc + entries_size es"
proof (induction d and es arbitrary: acc and acc rule: rglob_rglob_entries.induct)
  case (1 n) show ?case by (simp add: files_size_under_def)
next
  case (2 es) then show ?case by (simp add: files_size_under_def)
next
  case 3 show ?case by simp
next
  case (4 name c es)
  then show ?case by (cases c) (simp_all add: files_size_under_def)
qed

lemma get_directory_size_eq:
  "fs w p = Some d \<Longrightarrow> get_directory_size p w = files_size_under d"
  by (simp add: get_directory_size_def fold_rglob)

lemma logger_fields [simp]:
  "settings (logger l m w) = settings w" "store (logger l m w) = store w"
  "db_fault_at (logger l m w) = db_fault_at w" "db_calls (logger l m w) = db_calls w"
  "now_at (logger l m w) = now_at w" "now_calls (logger l m w) = now_calls w"
  "http_at (logger l m w) = http_at w" "http_calls (logger l m w) = http_calls w"
  "sent (logger l m w) = sent w" "fs (logger l m w) = fs w"
  "worker_effect_at (logger l m w) = worker_effect_at w"
  "spawn_at (logger l m w) = spawn_at w" "spawn_calls (logger l m w) = spawn_calls w"
  "commands (logger l m w) = commands w"
  "exit_code_at (logger l m w) = exit_code_at w" "exit_reads (logger l m w) = exit_reads w"
  "loop_time (logger l m w) = loop_time w" "slept (logger l m w) = slept w"
  "trace (logger l m w) = trace w"
  by (simp_all add: logger_def)

lemma reset_result:
  "client mgr = Some c \<Longrightarrow> fst (reset mgr w) = Inr ()"
  by (auto simp: reset_def http_call_def split: http_result.splits)

lemma reset_fields:
  "settings (snd (reset mgr w)) = settings w" "store (snd (reset mgr w)) = store w"
  "db_fault_at (snd (reset mgr w)) = db_fault_at w" "db_calls (snd (reset mgr w)) = db_calls w"
  "now_at (snd (reset mgr w)) = now_at w" "now_calls (snd (reset mgr w)) = now_calls w"
  "trace (snd (reset mgr w)) = trace w"
  by (auto simp: reset_def http_call_def split: http_result.splits)

lemma case_res_Inr:
  "fst x = Inr u \<Longrightarrow>
   (case x of (Inl e, w1) \<Rightarrow> f e w1 | (Inr v, w1) \<Rightarrow> g v w1) = g u (snd x)"
  by (cases x) auto

lemma load_file_result:
  assumes "client mgr = Some c" "http_at w (http_calls w) = Response c1 m1" "200 \<le> c1" "c1 \<le> 299"
  shows "fst (load_file mgr p w) = Inr ()"
  using assms by (simp add: load_file_def http_call_def is_success_def)

lemma load_file_fields:
  assumes "client mgr = Some c"
  shows "fs (snd (load_file mgr p w)) = worker_effect_at w (http_calls w) (fs w)"
    "http_calls (snd (load_file mgr p w)) = http_calls w + 1"
    "http_at (snd (load_file mgr p w)) = http_at w"
    "worker_effect_at (snd (load_file mgr p w)) = worker_effect_at w"
    "settings (snd (load_file mgr p w)) = settings w"
    "store (snd (load_file mgr p w)) = store w"
    "db_fault_at (snd (load_file mgr p w)) = db_fault_at w"
    "db_calls (snd (load_file mgr p w)) = db_calls w"
    "now_at (snd (load_file mgr p w)) = now_at w"
    "now_calls (snd (load_file mgr p w)) = now_calls w"
  using assms by (auto simp: load_file_def http_call_def split: http_result.splits)

lemma mkdir_dir:
  assumes "\<forall>n. fs w p \<noteq> Some (File n)"
  shows "mkdir p w = (Inr (), w\<lparr>fs := (if fs w p = None then (fs w)(p \<mapsto> Dir []) else fs w)\<rparr>)"
proof (cases "fs w p")
  case None then show ?thesis by (simp add: mkdir_def)
next
  case (Some nd)
  with assms obtain es where "nd = Dir es" by (cases nd) auto
  with Some show ?thesis by (simp add: mkdir_def)
qed

lemma export_result:
  assumes "client mgr = Some c" "http_at w (http_calls w) = Response c2 m2" "200 \<le> c2" "c2 \<le> 299"
    and "\<forall>n. fs w p \<noteq> Some (File n)"
  shows "fst (export_primary_content mgr p w) = Inr ()"
proof -
  have "\<forall>n. fs (logger INFO (''Exporting to: '' @ p) w) p \<noteq> Some (File n)"
    using assms(5) by simp
  from mkdir_dir [OF this] assms(1-4) show ?thesis
    by (simp add: export_primary_content_def http_call_def is_success_def)
qed

lemma export_fields:
  assumes "client mgr = Some c" and "\<forall>n. fs w p \<noteq> Some (File n)"
  shows "fs (snd (export_primary_content mgr p w))
           = worker_effect_at w (http_calls w) (if fs w p = None then (fs w)(p \<mapsto> Dir []) else fs w)"
    "settings (snd (export_primary_content mgr p w)) = settings w"
    "store (snd (export_primary_content mgr p w)) = store w"
    "db_fault_at (snd (export_primary_content mgr p w)) = db_fault_at w"
    "db_calls (snd (export_primary_content mgr p w)) = db_calls w"
    "now_at (snd (export_primary_content mgr p w)) = now_at w"
    "now_calls (snd (export_primary_content mgr p w)) = now_calls w"
proof -
  have "\<forall>n. fs (logger INFO (''Exporting to: '' @ p) w) p \<noteq> Some (File n)"
    using assms(2) by simp
  note m = mkdir_dir [OF this]
  show "fs (snd (export_primary_content mgr p w))
           = worker_effect_at w (http_calls w) (if fs w p = None then (fs w)(p \<mapsto> Dir []) else fs w)"
    "settings (snd (export_primary_content mgr p w)) = settings w"
    "store (snd (export_primary_content mgr p w)) = store w"
    "db_fault_at (snd (export_primary_content mgr p w)) = db_fault_at w"
    "db_calls (snd (export_primary_content mgr p w)) = db_calls w"
    "now_at (snd (export_primary_content mgr p w)) = now_at w"
    "now_calls (snd (export_primary_content mgr p w)) = now_calls w"
    using assms(1) m
    by (auto simp: export_primary_content_def http_call_def split: http_result.splits)
qed

lemma process_steps_success:
  assumes cl: "client mgr = Some c"
    and upload: "fs w (upload_path t) \<noteq> None"
    and load: "http_at w (http_calls w) = Response c1 m1" "200 \<le> c1" "c1 \<le> 299"
    and export: "http_at w (Suc (http_calls w)) = Response c2 m2" "200 \<le> c2" "c2 \<le> 299"
    and nofile: "\<forall>n. worker_effect_at w (http_calls w) (fs w) (get_task_export_dir (settings w) tid)
                      \<noteq> Some (File n)"
    and assets: "worker_effect_at w (Suc (http_calls w))
                   (if worker_effect_at w (http_calls w) (fs w) (get_task_export_dir (settings w) tid) = None
                    then (worker_effect_at w (http_calls w) (fs w))(get_task_export_dir (settings w) tid \<mapsto> Dir [])
                    else worker_effect_at w (http_calls w) (fs w))
                   (get_task_assets_dir (settings w) tid) = Some d"
    and db: "db_fault_at w (db_calls w) = None" "db_fault_at w (Suc (db_calls w)) = None"
  shows "fst (process_steps mgr tid t w) = Inr () \<and>
         store (snd (process_steps mgr tid t w))
           = update_where_id tid
               (set_completed (now_at w (now_calls w)) (get_task_assets_dir (settings w) tid)
                  (files_size_under d))
               (store w)"
proof -
  let ?dir = "get_task_export_dir (settings w) tid"
  let ?assets = "get_task_assets_dir (settings w) tid"
  let ?fs1 = "worker_effect_at w (http_calls w) (fs w)"
  note lf = load_file_fields [OF cl]
  have L: "fst (load_file mgr (upload_path t) (logger INFO m w)) = Inr ()" for m
    using load by (intro load_file_result [OF cl, where ?c1.0 = c1 and ?m1.0 = m1]) simp_all
  have nf: "\<forall>n. fs (logger INFO m' (snd (load_file mgr (upload_path t) (logger INFO m w)))) ?dir
              \<noteq> Some (File n)" for m m'
    using nofile by (simp add: lf)
  have E: "fst (export_primary_content mgr ?dir
             (logger INFO m' (snd (load_file mgr (upload_path t) (logger INFO m w))))) = Inr ()" for m m'
    using export by (intro export_result [OF cl, where ?c2.0 = c2 and ?m2.0 = m2] nf) (simp_all add: lf)
  note ef = export_fields [OF cl nf]
  have A: "fs (snd (export_primary_content mgr ?dir
             (logger INFO m' (snd (load_file mgr (upload_path t) (logger INFO m w)))))) ?assets = Some d"
    for m m'
    using assets by (auto simp: ef lf split: if_splits)
  have S: "get_directory_size ?assets (snd (export_primary_content mgr ?dir
             (logger INFO m' (snd (load_file mgr (upload_path t) (logger INFO m w))))))
           = files_size_under d" for m m'
    by (rule get_directory_size_eq [OF A])
  have R: "fst (reset mgr wx) = Inr ()" for wx by (rule reset_result [OF cl])
  show ?thesis
    using upload db
    by (simp add: process_steps_def exists_path_def case_res_Inr L E A S R lf ef(2-) reset_fields
          utcnow_def db_call_def Let_def del: fun_upd_apply split del: if_split)
qed

lemma mark_task_failed_store:
  assumes "mark_task_failed tid msg w = (r, w')"
  shows "(\<exists>e. r = Inl e) \<and> store w' = store w \<or>
         r = Inr () \<and>
         store w' = update_where_id tid (set_failed (now_at w (now_calls w)) msg) (store w)"
  using assms
  by (auto simp: mark_task_failed_def utcnow_def db_call_def logger_def split: option.splits)

lemma interrupt_all_snd: "snd (interrupt_all ts w) = w\<lparr>now_calls := now_calls w + length ts\<rparr>"
  by (induction ts arbitrary: w) (simp_all add: utcnow_def case_prod_beta)

lemma interrupt_all_length: "length (fst (interrupt_all ts w)) = length ts"
  by (induction ts arbitrary: w) (simp_all add: utcnow_def case_prod_beta)

lemma interrupt_all_nth:
  "j < length ts \<Longrightarrow> fst (interrupt_all ts w) ! j =
     (ts ! j)\<lparr>status := FAILED, completed_at := Some (now_at w (now_calls w + j)),
              error_message := Some recovery_message\<rparr>"
proof (induction ts arbitrary: w j)
  case Nil then show ?case by simp
next
  case (Cons t ts)
  show ?case
  proof (cases j)
    case 0 then show ?thesis by (simp add: utcnow_def case_prod_beta)
  next
    case (Suc k)
    with Cons.prems have "k < length ts" by simp
    from Cons.IH[OF this, of "snd (utcnow w)"] Suc show ?thesis
      by (simp add: utcnow_def case_prod_beta)
  qed
qed

lemma interrupt_all_clock:
  "now_at w1 = now_at w2 \<Longrightarrow> now_calls w1 = now_calls w2 \<Longrightarrow>
   fst (interrupt_all ts w1) = fst (interrupt_all ts w2)"
proof (induction ts arbitrary: w1 w2)
  case Nil then show ?case by simp
next
  case (Cons t ts)
  from Cons.prems
  have "fst (interrupt_all ts (snd (utcnow w1))) = fst (interrupt_all ts (snd (utcnow w2)))"
    by (intro Cons.IH) (simp_all add: utcnow_def)
  with Cons.prems show ?case by (simp add: utcnow_def case_prod_beta)
qed

lemma interrupt_all_ids: "map task_id (fst (interrupt_all ts w)) = map task_id ts"
  by (induction ts arbitrary: w) (simp_all add: utcnow_def case_prod_beta)

lemma find_distinct_key:
  assumes "distinct (map k xs)" "j < length xs"
  shows "find (\<lambda>u. k u = k (xs ! j)) xs = Some (xs ! j)"
  using assms
proof (induction xs arbitrary: j)
  case Nil then show ?case by simp
next
  case (Cons x xs)
  show ?case
  proof (cases j)
    case 0 then show ?thesis by simp
  next
    case (Suc i)
    with Cons.prems have i: "i < length xs" by simp
    then have "xs ! i \<in> set xs" by simp
    with Cons.prems have "k x \<noteq> k (xs ! i)" by auto
    with Cons.IH[OF _ i] Cons.prems Suc show ?thesis by simp
  qed
qed

lemma find_no_key: "k0 \<notin> set (map k xs) \<Longrightarrow> find (\<lambda>u. k u = k0) xs = None"
  by (induction xs) auto


lemma flush_other:
  assumes d: "distinct (map task_id rows)" and i: "i < length rows" and np: "\<not> P (rows ! i)"
    and ids: "map task_id cs = map task_id (filter P rows)"
  shows "flush cs rows ! i = rows ! i"
proof -
  have "task_id (rows ! i) \<notin> set (map task_id cs)"
  proof
    assume "task_id (rows ! i) \<in> set (map task_id cs)"
    then obtain p where p: "p \<in> set rows" "P p" "task_id p = task_id (rows ! i)"
      unfolding ids by auto
    from d have "inj_on task_id (set rows)" by (simp add: distinct_map)
    with p i have "p = rows ! i" by (auto dest: inj_onD)
    with p np show False by simp
  qed
  then have "find (\<lambda>u. task_id u = task_id (rows ! i)) cs = None" by (rule find_no_key)
  with i show ?thesis by (simp add: flush_def)
qed

lemma flush_selected:
  assumes d: "distinct (map task_id rows)" and i: "i < length rows" and p: "P (rows ! i)"
    and ids: "map task_id cs = map task_id (filter P rows)"
  shows "\<exists>j < length (filter P rows). filter P rows ! j = rows ! i \<and> flush cs rows ! i = cs ! j"
proof -
  let ?ps = "filter P rows"
  from i p have "rows ! i \<in> set ?ps" by simp
  then obtain j where j: "j < length ?ps" "?ps ! j = rows ! i"
    unfolding in_set_conv_nth by blast
  from ids have len: "length cs = length ?ps" by (metis length_map)
  from d have "distinct (map task_id ?ps)" by (rule distinct_map_filter)
  with ids have dc: "distinct (map task_id cs)" by simp
  from ids j len have "task_id (cs ! j) = task_id (rows ! i)"
    by (metis nth_map)
  moreover from find_distinct_key[OF dc, of j] j len
  have "find (\<lambda>u. task_id u = task_id (cs ! j)) cs = Some (cs ! j)" by simp
  ultimately have "find (\<lambda>u. task_id u = task_id (rows ! i)) cs = Some (cs ! j)" by simp
  with i have "flush cs rows ! i = cs ! j" by (simp add: flush_def)
  with j show ?thesis by blast
qed

lemma recover_result:
  assumes "recover_interrupted_tasks w = (Inr (), w')"
  shows "store w' = flush (fst (interrupt_all (filter (\<lambda>t. status t = PROCESSING) (store w)) w))
                      (store w)
         \<and> now_calls w' = now_calls w + length (filter (\<lambda>t. status t = PROCESSING) (store w))"
proof (cases "filter (\<lambda>t. status t = PROCESSING) (store w) = []")
  case True
  with assms show ?thesis
    by (auto simp: recover_interrupted_tasks_def db_call_def flush_def split: option.splits)
next
  case False
  have a: "fst (interrupt_all ts (w\<lparr>db_calls := c, logs := l\<rparr>)) = fst (interrupt_all ts w)" for ts c l
    by (rule interrupt_all_clock) simp_all
  from False assms show ?thesis
    by (auto simp: recover_interrupted_tasks_def db_call_def logger_def case_prod_beta Let_def
          interrupt_all_snd a split: option.splits)
qed

subsection \<open>Crash recovery\<close>

text \<open>
  Claim C1. When \<^verbatim>\<open>start()\<close> is called on a manager that is not yet running (the state
  of the manager after a service restart) and returns, every row of the table that had
  status PROCESSING has status FAILED, the fixed message
  \<^verbatim>\<open>Interrupted by container restart\<close> and, as \<open>completed_at\<close>, a reading of the clock
  taken during the recovery (the loop reads the clock once for each row); nothing else
  of such a row changes, and every other row is what it was. The table has a primary
  key, so identifiers are distinct.
\<close>

theorem start_recovers_processing:
  assumes nr: "\<not> running qm"
    and d: "distinct (map task_id (store w))"
    and st: "TaskQueueManager_start qm w = (Inr (), qm', w')"
  shows "length (store w') = length (store w) \<and>
         (\<forall>i < length (store w).
            (status (store w ! i) = PROCESSING \<longrightarrow>
               (\<exists>k. now_calls w \<le> k \<and> k < now_calls w' \<and>
                    store w' ! i =
                      (store w ! i)\<lparr>status := FAILED, completed_at := Some (now_at w k),
                                     error_message := Some ''Interrupted by container restart''\<rparr>)) \<and>
            (status (store w ! i) \<noteq> PROCESSING \<longrightarrow> store w' ! i = store w ! i))"
proof -
  let ?P = "\<lambda>t. status t = PROCESSING"
  let ?w1 = "logger INFO ''Task queue worker started'' w"
  let ?ps = "filter ?P (store w)"
  let ?cs = "fst (interrupt_all ?ps ?w1)"
  from nr st have "recover_interrupted_tasks ?w1 = (Inr (), w')"
    by (simp add: TaskQueueManager_start_def Let_def split: prod.splits)
  from recover_result[OF this]
  have s: "store w' = flush ?cs (store w)" and n: "now_calls w' = now_calls w + length ?ps"
    by (simp_all add: logger_def)
  have ids: "map task_id ?cs = map task_id ?ps" by (rule interrupt_all_ids)
  have len: "length (store w') = length (store w)" by (simp add: s flush_def)
  have "\<exists>k. now_calls w \<le> k \<and> k < now_calls w' \<and>
             store w' ! i = (store w ! i)\<lparr>status := FAILED, completed_at := Some (now_at w k),
                                     error_message := Some ''Interrupted by container restart''\<rparr>"
    if i: "i < length (store w)" and p: "?P (store w ! i)" for i
  proof -
    from flush_selected[OF d i, of ?P ?cs] p ids
    obtain j where j: "j < length ?ps" "?ps ! j = store w ! i" "flush ?cs (store w) ! i = ?cs ! j"
      by blast
    from interrupt_all_nth[OF j(1), of ?w1] j s
    have "store w' ! i = (store w ! i)\<lparr>status := FAILED,
            completed_at := Some (now_at w (now_calls w + j)),
            error_message := Some ''Interrupted by container restart''\<rparr>"
      by (simp add: logger_def recovery_message_def)
    with j(1) n show ?thesis by (intro exI[of _ "now_calls w + j"]) simp
  qed
  moreover have "store w' ! i = store w ! i"
    if i: "i < length (store w)" and p: "\<not> ?P (store w ! i)" for i
    using flush_other[OF d i, of ?P ?cs] p ids s by simp
  ultimately show ?thesis using len by blast
qed

theorem start_recovers_processing_witness:
  "\<not> running TaskQueueManager_init \<and>
   distinct (map task_id
     (store (calm_world\<lparr>store := [row ''a'' PROCESSING, row ''b'' PENDING, row ''c'' PROCESSING]\<rparr>))) \<and>
   fst (TaskQueueManager_start TaskQueueManager_init
     (calm_world\<lparr>store := [row ''a'' PROCESSING, row ''b'' PENDING, row ''c'' PROCESSING]\<rparr>)) = Inr () \<and>
   map status (store (snd (snd (TaskQueueManager_start TaskQueueManager_init
     (calm_world\<lparr>store := [row ''a'' PROCESSING, row ''b'' PENDING, row ''c'' PROCESSING]\<rparr>)))))
     = [FAILED, PENDING, FAILED] \<and>
   length (store (snd (snd (TaskQueueManager_start TaskQueueManager_init
     (calm_world\<lparr>store := [row ''a'' PROCESSING, row ''b'' PENDING, row ''c'' PROCESSING]\<rparr>))))) = 3"
proof -
  let ?w = "calm_world\<lparr>store := [row ''a'' PROCESSING, row ''b'' PENDING, row ''c'' PROCESSING]\<rparr>"
  have h1: "\<not> running TaskQueueManager_init" by (simp add: TaskQueueManager_init_def)
  have h2: "distinct (map task_id (store ?w))" by (simp add: row_def)
  have ev: "fst (TaskQueueManager_start TaskQueueManager_init ?w) = Inr () \<and>
            map status (store (snd (snd (TaskQueueManager_start TaskQueueManager_init ?w)))) = [FAILED, PENDING, FAILED]"
    by (simp add: TaskQueueManager_start_def TaskQueueManager_init_def recover_interrupted_tasks_def db_call_def
          calm_world_def logger_def row_def utcnow_def flush_def Let_def)
  then have h3: "TaskQueueManager_start TaskQueueManager_init ?w =
      (Inr (), fst (snd (TaskQueueManager_start TaskQueueManager_init ?w)), snd (snd (TaskQueueManager_start TaskQueueManager_init ?w)))"
    by (metis prod.collapse)
  from start_recovers_processing [OF h1 h2 h3]
  have "length (store (snd (snd (TaskQueueManager_start TaskQueueManager_init ?w)))) = length (store ?w)" by blast
  then have "length (store (snd (snd (TaskQueueManager_start TaskQueueManager_init ?w)))) = 3" by simp
  with h1 h2 ev show ?thesis by blast
qed

subsection \<open>The failure write\<close>

text \<open>
  Claim C10. \<^verbatim>\<open>_mark_task_failed\<close> leaves the number of rows as it is, leaves every row
  with another identifier as it is, and in a row with the given identifier changes at
  most \<open>status\<close>, \<open>completed_at\<close> and \<open>error_message\<close>: the identifier, \<open>created_at\<close>,
  \<open>started_at\<close>, the file facts, the export facts, \<open>retry_count\<close> and \<open>user_ip\<close> are
  what they were. When the call returns, the row with the identifier is the old row
  with exactly those three fields set.
\<close>

theorem mark_task_failed_frame:
  assumes m: "mark_task_failed tid msg w = (r, w')" and i: "i < length (store w)"
  shows "length (store w') = length (store w) \<and>
         (task_id (store w ! i) \<noteq> tid \<longrightarrow> store w' ! i = store w ! i) \<and>
         (r = Inr () \<and> task_id (store w ! i) = tid \<longrightarrow>
            store w' ! i = (store w ! i)\<lparr>status := FAILED,
                               completed_at := Some (now_at w (now_calls w)),
                               error_message := Some msg\<rparr>) \<and>
         task_id (store w' ! i) = task_id (store w ! i) \<and>
         created_at (store w' ! i) = created_at (store w ! i) \<and>
         started_at (store w' ! i) = started_at (store w ! i) \<and>
         original_filename (store w' ! i) = original_filename (store w ! i) \<and>
         upload_path (store w' ! i) = upload_path (store w ! i) \<and>
         file_size_bytes (store w' ! i) = file_size_bytes (store w ! i) \<and>
         file_hash (store w' ! i) = file_hash (store w ! i) \<and>
         export_path (store w' ! i) = export_path (store w ! i) \<and>
         export_size_bytes (store w' ! i) = export_size_bytes (store w ! i) \<and>
         retry_count (store w' ! i) = retry_count (store w ! i) \<and>
         user_ip (store w' ! i) = user_ip (store w ! i)"
proof -
  from mark_task_failed_store [OF m]
  show ?thesis
  proof
    assume "(\<exists>e. r = Inl e) \<and> store w' = store w"
    then show ?thesis by auto
  next
    assume "r = Inr () \<and> store w' = update_where_id tid (set_failed (now_at w (now_calls w)) msg) (store w)"
    with i show ?thesis by (simp add: update_where_id_def set_failed_def)
  qed
qed

theorem mark_task_failed_frame_witness:
  "mark_task_failed ''b'' ''boom'' (calm_world\<lparr>store := [row ''a'' PENDING, row ''b'' PROCESSING]\<rparr>)
     = (fst (mark_task_failed ''b'' ''boom'' (calm_world\<lparr>store := [row ''a'' PENDING, row ''b'' PROCESSING]\<rparr>)),
        snd (mark_task_failed ''b'' ''boom'' (calm_world\<lparr>store := [row ''a'' PENDING, row ''b'' PROCESSING]\<rparr>))) \<and>
   (1::nat) < length (store (calm_world\<lparr>store := [row ''a'' PENDING, row ''b'' PROCESSING]\<rparr>)) \<and>
   fst (mark_task_failed ''b'' ''boom'' (calm_world\<lparr>store := [row ''a'' PENDING, row ''b'' PROCESSING]\<rparr>)) = Inr () \<and>
   store (snd (mark_task_failed ''b'' ''boom'' (calm_world\<lparr>store := [row ''a'' PENDING, row ''b'' PROCESSING]\<rparr>))) ! 1
     = (row ''b'' PROCESSING)\<lparr>status := FAILED, completed_at := Some 1000, error_message := Some ''boom''\<rparr> \<and>
   retry_count (store (snd (mark_task_failed ''b'' ''boom''
      (calm_world\<lparr>store := [row ''a'' PENDING, row ''b'' PROCESSING]\<rparr>))) ! 1) = 0"
proof -
  let ?w = "calm_world\<lparr>store := [row ''a'' PENDING, row ''b'' PROCESSING]\<rparr>"
  have h1: "mark_task_failed ''b'' ''boom'' ?w
              = (fst (mark_task_failed ''b'' ''boom'' ?w), snd (mark_task_failed ''b'' ''boom'' ?w))"
    by simp
  have h2: "(1::nat) < length (store ?w)" by simp
  have ev: "fst (mark_task_failed ''b'' ''boom'' ?w) = Inr ()"
    by (simp add: mark_task_failed_def utcnow_def db_call_def calm_world_def)
  have tb: "task_id (store ?w ! 1) = ''b''" by (simp add: row_def)
  have nw: "now_at ?w (now_calls ?w) = 1000" by (simp add: calm_world_def)
  have rc: "retry_count (store ?w ! 1) = 0" by (simp add: row_def)
  from mark_task_failed_frame [OF h1 h2] ev tb nw rc h1 h2 show ?thesis by simp
qed

subsection \<open>Terminal rows and the failure write of the dispatch loop\<close>

text \<open>
  The guard of \<^verbatim>\<open>_process_task\<close>: once the row has been read and is not PENDING, the
  task is skipped with a warning, and nothing is written to the table.
\<close>

lemma process_task_skips_non_pending:
  assumes "db_fault_at w (db_calls w) = None"
    and "filter (\<lambda>t. task_id t = tid) (store w) = [t]"
    and "status t \<noteq> PENDING"
  shows "process_task mgr tid w =
           (Inr (), logger WARNING (''Task '' @ tid @ '' is not PENDING (status: ''
                                     @ status t @ ''), skipping'')
                      (w\<lparr>db_calls := db_calls w + 1\<rparr>))"
  using assms by (simp add: process_task_def db_call_def)

text \<open>
  Claim C2, at the input where the code departs from it: the row of task \<open>a\<close> is
  COMPLETED, \<open>a\<close> is in the queue once more, and the fetch of \<^verbatim>\<open>_process_task\<close> raises
  (the database is locked). The exception leaves \<^verbatim>\<open>_process_task\<close>, the handler of the
  dispatch loop calls \<^verbatim>\<open>_mark_task_failed\<close>, whose UPDATE has no condition on the
  status, and the COMPLETED row becomes FAILED with a new \<open>completed_at\<close>.
\<close>

theorem worker_overwrites_completed_row:
  "store (snd (worker_iteration
      ((AssetRipperManager_init default_settings)\<lparr>client := Some ''http://localhost:8765''\<rparr>)
      (TaskQueueManager_init\<lparr>queue := [''a''], running := True\<rparr>)
      (calm_world\<lparr>store := [(row ''a'' COMPLETED)\<lparr>completed_at := Some 950\<rparr>],
                  db_fault_at := (\<lambda>k. if k = 0 then Some ''database is locked'' else None)\<rparr>)))
   = [(row ''a'' COMPLETED)\<lparr>status := FAILED, completed_at := Some 1000,
                              error_message := Some ''database is locked''\<rparr>]"
  by (simp add: worker_iteration_def process_task_def db_call_def calm_world_def logger_def
        mark_task_failed_def utcnow_def update_where_id_def set_failed_def row_def
        TaskQueueManager_init_def Let_def)

subsection \<open>One pass of the health check\<close>

text \<open>
  Claim C3, at the input where the code departs from it: self-managed mode, the child
  process alive, and the probe answered with status 500. The pass marks the worker
  unhealthy and logs a warning, and that is all: the manager is otherwise unchanged,
  nothing is spawned and the only sleep is the interval of the loop, so no restart is
  attempted. (A probe that times out or cannot connect does reach
  \<^verbatim>\<open>_attempt_restart\<close>.)
\<close>

theorem health_check_failing_status_no_restart:
  "fst (health_check_iteration
          ((AssetRipperManager_init default_settings)
             \<lparr>process := Some 4242, client := Some ''http://localhost:8765'',
              health_check_task := Some Active, is_healthy := True\<rparr>)
          (calm_world\<lparr>http_at := (\<lambda>k. Response 500 ''Server error'')\<rparr>))
     = (AssetRipperManager_init default_settings)
             \<lparr>process := Some 4242, client := Some ''http://localhost:8765'',
              health_check_task := Some Active, is_healthy := False\<rparr> \<and>
   \<not> use_external_host (AssetRipperManager_init default_settings) \<and>
   slept (snd (health_check_iteration
          ((AssetRipperManager_init default_settings)
             \<lparr>process := Some 4242, client := Some ''http://localhost:8765'',
              health_check_task := Some Active, is_healthy := True\<rparr>)
          (calm_world\<lparr>http_at := (\<lambda>k. Response 500 ''Server error'')\<rparr>)))
     = [(HealthInterval, 30)] \<and>
   spawn_calls (snd (health_check_iteration
          ((AssetRipperManager_init default_settings)
             \<lparr>process := Some 4242, client := Some ''http://localhost:8765'',
              health_check_task := Some Active, is_healthy := True\<rparr>)
          (calm_world\<lparr>http_at := (\<lambda>k. Response 500 ''Server error'')\<rparr>))) = 0 \<and>
   map fst (logs (snd (health_check_iteration
          ((AssetRipperManager_init default_settings)
             \<lparr>process := Some 4242, client := Some ''http://localhost:8765'',
              health_check_task := Some Active, is_healthy := True\<rparr>)
          (calm_world\<lparr>http_at := (\<lambda>k. Response 500 ''Server error'')\<rparr>)))) = [WARNING]"
  by (simp add: health_check_iteration_def AssetRipperManager_init_def default_settings_def
        calm_world_def sleep_def returncode_def http_call_def logger_def Let_def)

subsection \<open>Faults of \<^verbatim>\<open>load_file\<close>\<close>

text \<open>
  Claim C5 as stated fails: for a failing status the code raises the base class
  \<^verbatim>\<open>AssetRipperError\<close>, not \<^verbatim>\<open>AssetRipperProcessError\<close>; the status code is in the text.
\<close>

theorem load_file_failing_status_counterexample:
  "fst (load_file ((AssetRipperManager_init default_settings)\<lparr>client := Some ''http://localhost:8765''\<rparr>)
          ''/app/data/uploads/t1/game.zip''
          (calm_world\<lparr>http_at := (\<lambda>k. Response 500 ''Server error'')\<rparr>))
     = Inl (AssetRipperError ''LoadFile failed with status 500: Server error'') \<and>
   AssetRipperError ''LoadFile failed with status 500: Server error''
     \<noteq> AssetRipperProcessError ''LoadFile failed with status 500: Server error''"
  by (simp add: load_file_def http_call_def calm_world_def logger_def is_success_def) code_simp

text \<open>
  Claim C5, amended. \<^verbatim>\<open>load_file\<close> raises \<^verbatim>\<open>AssetRipperConnectionError\<close> when the client
  is not initialised (and then sends nothing) and when the request fails below HTTP; it
  raises the base \<^verbatim>\<open>AssetRipperError\<close> with the status code in its text when the worker
  answers with a status outside 200..299, and the base \<^verbatim>\<open>AssetRipperError\<close> with a
  timeout text when the request times out; on a status in 200..299 it returns.
\<close>

theorem load_file_faults:
  "(client mgr = None \<longrightarrow>
      load_file mgr file_path w
        = (Inl (AssetRipperConnectionError ''AssetRipper client not initialized''), w)) \<and>
   (client mgr \<noteq> None \<longrightarrow>
      sent (snd (load_file mgr file_path w)) = sent w @ [(''POST /LoadFile'', file_path)] \<and>
      (case http_at w (http_calls w) of
         RequestError m \<Rightarrow>
           fst (load_file mgr file_path w)
             = Inl (AssetRipperConnectionError (''LoadFile request failed: '' @ m))
       | TimeoutException m \<Rightarrow>
           fst (load_file mgr file_path w) = Inl (AssetRipperError (''LoadFile timeout: '' @ m))
       | Response code m \<Rightarrow>
           (if 200 \<le> code \<and> code \<le> 299 then fst (load_file mgr file_path w) = Inr ()
            else fst (load_file mgr file_path w)
                   = Inl (AssetRipperError
                            (''LoadFile failed with status '' @ str_nat code @ '': '' @ m)))))"
  by (auto simp: load_file_def http_call_def logger_def is_success_def split: http_result.splits)

theorem load_file_faults_witness:
  "client ((AssetRipperManager_init default_settings)\<lparr>client := Some ''http://localhost:8765''\<rparr>) \<noteq> None \<and>
   fst (load_file ((AssetRipperManager_init default_settings)\<lparr>client := Some ''http://localhost:8765''\<rparr>)
          ''/app/data/uploads/t1/game.zip''
          (calm_world\<lparr>http_at := (\<lambda>k. RequestError ''Connection refused'')\<rparr>))
     = Inl (AssetRipperConnectionError ''LoadFile request failed: Connection refused'') \<and>
   client (AssetRipperManager_init default_settings) = None \<and>
   load_file (AssetRipperManager_init default_settings) ''/app/data/uploads/t1/game.zip'' calm_world
     = (Inl (AssetRipperConnectionError ''AssetRipper client not initialized''), calm_world)"
proof -
  let ?m = "(AssetRipperManager_init default_settings)\<lparr>client := Some ''http://localhost:8765''\<rparr>"
  let ?w = "calm_world\<lparr>http_at := (\<lambda>k. RequestError ''Connection refused'')\<rparr>"
  have h: "client ?m \<noteq> None" by simp
  have h0: "client (AssetRipperManager_init default_settings) = None"
    by (simp add: AssetRipperManager_init_def)
  have o: "http_at ?w (http_calls ?w) = RequestError ''Connection refused''" by simp
  from load_file_faults [of ?m "''/app/data/uploads/t1/game.zip''" ?w] h o
  have a: "fst (load_file ?m ''/app/data/uploads/t1/game.zip'' ?w)
             = Inl (AssetRipperConnectionError ''LoadFile request failed: Connection refused'')"
    by simp
  from load_file_faults [of "AssetRipperManager_init default_settings"
                            "''/app/data/uploads/t1/game.zip''" calm_world] h0
  have b: "load_file (AssetRipperManager_init default_settings) ''/app/data/uploads/t1/game.zip'' calm_world
     = (Inl (AssetRipperConnectionError ''AssetRipper client not initialized''), calm_world)"
    by blast
  from a b h h0 show ?thesis by blast
qed

subsection \<open>Enqueueing\<close>

text \<open>
  Claim C8 as stated fails: \<^verbatim>\<open>add_task\<close> does not look at \<^verbatim>\<open>_running\<close>. On a manager
  that was started and stopped it still appends, so it is not a no-op after shutdown.
\<close>

theorem add_task_after_stop_counterexample:
  "\<not> running (fst (TaskQueueManager_stop
        (fst (snd (TaskQueueManager_start TaskQueueManager_init calm_world))) calm_world)) \<and>
   queue (fst (add_task
        (fst (TaskQueueManager_stop
           (fst (snd (TaskQueueManager_start TaskQueueManager_init calm_world))) calm_world))
        ''t1'' calm_world))
     \<noteq> queue (fst (TaskQueueManager_stop
        (fst (snd (TaskQueueManager_start TaskQueueManager_init calm_world))) calm_world))"
  by (simp add: TaskQueueManager_stop_def TaskQueueManager_start_def TaskQueueManager_init_def
        add_task_def Let_def split: prod.splits)

text \<open>
  Claim C8, amended. \<^verbatim>\<open>add_task\<close> appends the identifier to the tail of the unbounded
  queue, whether the manager is running or not; it has no failure case; the queue grows
  by one, the rest of the manager and the table of tasks are unchanged.
\<close>

theorem add_task_appends:
  "queue (fst (add_task qm tid w)) = queue qm @ [tid] \<and>
   get_queue_size (fst (add_task qm tid w)) = get_queue_size qm + 1 \<and>
   running (fst (add_task qm tid w)) = running qm \<and>
   worker_task (fst (add_task qm tid w)) = worker_task qm \<and>
   current_task_id (fst (add_task qm tid w)) = current_task_id qm \<and>
   store (snd (add_task qm tid w)) = store w"
  by (simp add: add_task_def get_queue_size_def logger_def Let_def)

subsection \<open>\<^verbatim>\<open>reset\<close>\<close>




subsection \<open>A successful task\<close>

text \<open>
  Claim C6. The row of the task is PENDING and the only one with its identifier; the
  upload exists, the load and the export are answered with a status in 200..299, the
  export directory is not a regular file, the output subdirectory \<^verbatim>\<open>Assets\<close> exists
  after the export, and the four database calls of the pipeline succeed. Then
  \<^verbatim>\<open>_process_task\<close> returns, and the row is the old row with status COMPLETED,
  \<open>started_at\<close> and \<open>completed_at\<close> stamped with the two clock readings, the export path
  set to the output subdirectory, \<open>export_size_bytes\<close> the sum of the sizes of all
  regular files under it, and no error message. The outcome of the reset request is
  not among the hypotheses: it does not matter.
\<close>

theorem process_task_success:
  assumes row: "i < length (store w)" "store w ! i = t" "task_id t = tid"
    and uniq: "filter (\<lambda>r. task_id r = tid) (store w) = [t]"
    and pending: "status t = PENDING"
    and db: "db_fault_at w (db_calls w) = None" "db_fault_at w (db_calls w + 1) = None"
            "db_fault_at w (db_calls w + 2) = None" "db_fault_at w (db_calls w + 3) = None"
    and cl: "client mgr = Some c"
    and upload: "fs w (upload_path t) \<noteq> None"
    and load: "http_at w (http_calls w) = Response c1 m1" "200 \<le> c1" "c1 \<le> 299"
    and export: "http_at w (http_calls w + 1) = Response c2 m2" "200 \<le> c2" "c2 \<le> 299"
    and fs1: "fs1 = worker_effect_at w (http_calls w) (fs w)"
    and nofile: "\<forall>n. fs1 (get_task_export_dir (settings w) tid) \<noteq> Some (File n)"
    and fs2: "fs2 = worker_effect_at w (http_calls w + 1)
                      (if fs1 (get_task_export_dir (settings w) tid) = None
                       then fs1(get_task_export_dir (settings w) tid \<mapsto> Dir [])
                       else fs1)"
    and assets: "fs2 (get_task_assets_dir (settings w) tid) = Some d"
  shows "fst (process_task mgr tid w) = Inr () \<and>
         store (snd (process_task mgr tid w)) ! i =
           t\<lparr>status := COMPLETED,
             started_at := Some (now_at w (now_calls w)),
             completed_at := Some (now_at w (now_calls w + 1)),
             export_path := Some (get_task_assets_dir (settings w) tid),
             export_size_bytes := Some (int (files_size_under d)),
             error_message := None\<rparr>"
proof -
  let ?now = "now_at w (now_calls w)"
  let ?t1 = "set_processing ?now t"
  define W0 where "W0 = logger INFO (''Task '' @ tid @ '' started processing'')
        (w\<lparr>db_calls := db_calls w + 1, now_calls := now_calls w + 1, db_calls := db_calls w + 1 + 1,
           store := update_where_id tid (set_processing ?now) (store w)\<rparr>)"
  have unfold: "process_task mgr tid w =
      (case process_steps mgr tid ?t1 W0 of
         (Inr _, w4) \<Rightarrow> (Inr (), w4)
       | (Inl e, w4) \<Rightarrow>
           (if is_AssetRipperError e then
              (case mark_task_failed tid (''AssetRipper error: '' @ exn_str e)
                      (logger ERROR (''Task '' @ tid
                         @ '' failed due to AssetRipper error: '' @ exn_str e) w4) of
                 (Inl e', w5) \<Rightarrow> (Inl e', w5)
               | (Inr _, w5) \<Rightarrow>
                   (case reset mgr w5 of
                      (Inr _, w6) \<Rightarrow> (Inr (), w6)
                    | (Inl reset_error, w6) \<Rightarrow>
                        (Inr (), logger ERROR (''Failed to reset AssetRipper: ''
                                               @ exn_str reset_error) w6)))
            else
              mark_task_failed tid (''Unexpected error: '' @ exn_str e)
                (logger EXCEPTION (''Task '' @ tid
                   @ '' failed with unexpected error: '' @ exn_str e) w4)))"
    using uniq pending db(1,2)
    by (simp add: process_task_def db_call_def utcnow_def W0_def)
  have W0f: "fs W0 = fs w" "http_at W0 = http_at w" "http_calls W0 = http_calls w"
    "worker_effect_at W0 = worker_effect_at w" "settings W0 = settings w"
    "db_fault_at W0 = db_fault_at w" "db_calls W0 = db_calls w + 2"
    "now_at W0 = now_at w" "now_calls W0 = now_calls w + 1"
    "store W0 = update_where_id tid (set_processing ?now) (store w)"
    by (simp_all add: W0_def)
  have up: "upload_path ?t1 = upload_path t" by (simp add: set_processing_def)
  have db3: "db_fault_at w (Suc (Suc (Suc (db_calls w)))) = None"
    using db(4) by (simp add: numeral_3_eq_3)
  have P: "fst (process_steps mgr tid ?t1 W0) = Inr () \<and>
         store (snd (process_steps mgr tid ?t1 W0))
           = update_where_id tid
               (set_completed (now_at W0 (now_calls W0)) (get_task_assets_dir (settings W0) tid)
                  (files_size_under d))
               (store W0)"
    using upload load export nofile assets db(3) db3 unfolding fs1 fs2
    by (intro process_steps_success [OF cl, where ?c1.0 = c1 and ?m1.0 = m1
                                           and ?c2.0 = c2 and ?m2.0 = m2])
       (auto simp: W0f up split: if_splits)
  have upd: "update_where_id tid f (update_where_id tid (set_processing n) (store w)) ! i
                = f (set_processing n t)" for f n
    using row by (simp add: update_where_id_def set_processing_def)
  from P show ?thesis
    by (simp add: unfold case_res_Inr W0f upd set_processing_def set_completed_def)
qed

theorem process_task_success_witness:
  "status (row ''t1'' PENDING) = PENDING \<and>
   client ready_manager = Some ''http://localhost:8765'' \<and>
   fst (process_task ready_manager ''t1'' export_world) = Inr () \<and>
   store (snd (process_task ready_manager ''t1'' export_world)) ! 0 =
     (row ''t1'' PENDING)
       \<lparr>status := COMPLETED, started_at := Some 1000, completed_at := Some 1001,
        export_path := Some ''/app/data/exports/t1/Assets'',
        export_size_bytes := Some 1200, error_message := None\<rparr>"
proof -
  have sz: "files_size_under exported_assets = 1200"
    by (simp add: files_size_under_def exported_assets_def)
  have "fst (process_task ready_manager ''t1'' export_world) = Inr () \<and>
        store (snd (process_task ready_manager ''t1'' export_world)) ! 0 =
          (row ''t1'' PENDING)
            \<lparr>status := COMPLETED,
             started_at := Some (now_at export_world (now_calls export_world)),
             completed_at := Some (now_at export_world (now_calls export_world + 1)),
             export_path := Some (get_task_assets_dir (settings export_world) ''t1''),
             export_size_bytes := Some (int (files_size_under exported_assets)),
             error_message := None\<rparr>"
    by (rule process_task_success [where c = "''http://localhost:8765''"
            and ?c1.0 = 200 and ?m1.0 = "[]" and ?c2.0 = 200 and ?m2.0 = "[]"
            and ?fs1.0 = "fs export_world"
            and ?fs2.0 = "(fs export_world)(''/app/data/exports/t1'' \<mapsto> Dir [],
                             ''/app/data/exports/t1/Assets'' \<mapsto> exported_assets)"])
       (simp_all add: export_world_def calm_world_def row_def ready_manager_def
          default_settings_def get_task_export_dir_def get_task_assets_dir_def)
  then show ?thesis
    by (simp add: sz export_world_def calm_world_def row_def ready_manager_def
          default_settings_def get_task_export_dir_def get_task_assets_dir_def)
qed

subsection \<open>Order of dispatch\<close>

lemma db_call_trace [simp]: "trace (snd (db_call w)) = trace w"
  by (simp add: db_call_def split: option.splits)

lemma utcnow_trace [simp]: "trace (snd (utcnow w)) = trace w"
  by (simp add: utcnow_def)

lemma http_call_trace [simp]: "trace (snd (http_call e a w)) = trace w"
  by (simp add: http_call_def)

lemma mark_task_failed_trace [simp]: "trace (snd (mark_task_failed tid msg w)) = trace w"
  by (simp add: mark_task_failed_def utcnow_def db_call_def split: option.splits)

lemma load_file_trace [simp]: "trace (snd (load_file mgr p w)) = trace w"
  by (simp add: load_file_def http_call_def split: http_result.splits)

lemma export_trace [simp]: "trace (snd (export_primary_content mgr p w)) = trace w"
  by (auto simp: export_primary_content_def mkdir_def http_call_def
           split: http_result.splits option.splits fsnode.splits)

lemma process_steps_trace [simp]: "trace (snd (process_steps mgr tid t w)) = trace w"
proof -
  have a: "trace (snd (case x of (Inl e, w1) \<Rightarrow> (Inl e, w1) | (Inr u, w1) \<Rightarrow> f w1)) = trace w"
    if "trace (snd x) = trace w" "\<And>w1. trace w1 = trace w \<Longrightarrow> trace (snd (f w1)) = trace w"
    for x :: "unit res" and f :: "world \<Rightarrow> unit res"
    using that by (cases x) (auto split: sum.splits)
  have r: "trace (case reset mgr w3 of (Inr u, w') \<Rightarrow> w' | (Inl e, w') \<Rightarrow> logger WARNING (m e) w')
             = trace w3" for w3 m
    using reset_fields(7) [of mgr w3] by (cases "reset mgr w3") (auto split: sum.splits)
  show ?thesis
    unfolding process_steps_def Let_def
    by (auto intro!: a simp: r utcnow_def db_call_def split: option.splits)
qed


lemma process_task_trace [simp]: "trace (snd (process_task mgr tid w)) = trace w"
proof -
  have a: "trace (snd (case x of (Inl e, w1) \<Rightarrow> (Inl e, w1) | (Inr u, w1) \<Rightarrow> f w1)) = trace w"
    if "trace (snd x) = trace w" "\<And>w1. trace w1 = trace w \<Longrightarrow> trace (snd (f w1)) = trace w"
    for x :: "unit res" and f :: "world \<Rightarrow> unit res"
    using that by (cases x) (auto split: sum.splits)
  have b: "trace (snd (case x of (Inr u, w4) \<Rightarrow> (Inr (), w4) | (Inl e, w4) \<Rightarrow> g e w4)) = trace w"
    if "trace (snd x) = trace w" "\<And>e w4. trace w4 = trace w \<Longrightarrow> trace (snd (g e w4)) = trace w"
    for x :: "unit res" and g :: "exn \<Rightarrow> world \<Rightarrow> unit res"
    using that by (cases x) (auto split: sum.splits)
  have r: "trace (snd (case reset mgr w5 of (Inr u, w6) \<Rightarrow> (Inr (), w6)
                        | (Inl e, w6) \<Rightarrow> (Inr (), logger ERROR (m e) w6))) = trace w5" for w5 m
    using reset_fields(7) [of mgr w5] by (cases "reset mgr w5") (auto split: sum.splits)
  show ?thesis
    unfolding process_task_def Let_def
    by (auto intro!: a b simp: r reset_fields(7) utcnow_def split: list.splits)
qed

lemma mark_task_failed_traceD: "mark_task_failed tid m w = (r, w') \<Longrightarrow> trace w' = trace w"
  using mark_task_failed_trace [of tid m w] by simp

lemma process_task_traceD: "process_task mgr tid w = (r, w') \<Longrightarrow> trace w' = trace w"
  using process_task_trace [of mgr tid w] by simp

lemma worker_iteration_cases:
  "(queue (fst (worker_iteration mgr qm w)) = queue qm \<and>
    trace (snd (worker_iteration mgr qm w)) = trace w) \<or>
   (\<exists>tid. queue qm = tid # queue (fst (worker_iteration mgr qm w)) \<and>
          trace (snd (worker_iteration mgr qm w)) = trace w @ [Began tid, Ended tid])"
proof (cases "running qm")
  case False then show ?thesis by (simp add: worker_iteration_def)
next
  case True
  show ?thesis
  proof (cases "queue qm")
    case Nil with True show ?thesis by (simp add: worker_iteration_def)
  next
    case (Cons tid rest)
    let ?w1 = "(logger INFO (''Processing task '' @ tid) w)\<lparr>trace := trace w @ [Began tid]\<rparr>"
    have "queue qm = tid # queue (fst (worker_iteration mgr qm w)) \<and>
          trace (snd (worker_iteration mgr qm w)) = trace w @ [Began tid, Ended tid]"
      using True Cons
      by (auto simp: worker_iteration_def Let_def sleep_def
               split: sum.splits prod.splits
               dest!: process_task_traceD mark_task_failed_traceD)
    then show ?thesis by blast
  qed
qed

lemma run_invariant:
  "\<exists>done. trace (snd (run acts (qm, w))) = trace w @ invocations done \<and>
          done @ queue (fst (run acts (qm, w))) = queue qm @ enqueued acts"
proof (induction acts arbitrary: qm w)
  case Nil
  show ?case by (intro exI [of _ "[]"]) (simp add: invocations_def)
next
  case (Cons a acts)
  show ?case
  proof (cases a)
    case (Enqueue tid)
    from Cons.IH [of "fst (add_task qm tid w)" "snd (add_task qm tid w)"]
    show ?thesis using Enqueue by (simp add: add_task_def Let_def)
  next
    case (Dispatch mgr)
    let ?qm = "fst (worker_iteration mgr qm w)" and ?w = "snd (worker_iteration mgr qm w)"
    from Cons.IH [of ?qm ?w] obtain ds where
      ds: "trace (snd (run acts (?qm, ?w))) = trace ?w @ invocations ds"
          "ds @ queue (fst (run acts (?qm, ?w))) = queue ?qm @ enqueued acts"
      by blast
    from worker_iteration_cases [of mgr qm w] show ?thesis
    proof
      assume "queue ?qm = queue qm \<and> trace ?w = trace w"
      with ds Dispatch show ?thesis by (intro exI [of _ ds]) simp
    next
      assume "\<exists>tid. queue qm = tid # queue ?qm \<and> trace ?w = trace w @ [Began tid, Ended tid]"
      then obtain tid where "queue qm = tid # queue ?qm" "trace ?w = trace w @ [Began tid, Ended tid]"
        by blast
      with ds Dispatch show ?thesis
        by (intro exI [of _ "tid # ds"]) (simp add: invocations_def)
    qed
  qed
qed

text \<open>
  Claim C7. Start with an empty queue and an empty record, and let callers enqueue and
  the dispatch loop make passes in any order. Then the record of pipeline invocations
  is \<open>invocations done\<close> for a list \<open>done\<close> that, followed by what is still queued, is
  the list of identifiers in the order they were enqueued: the pipeline is invoked in
  enqueue order, and every invocation has ended before the next one begins, so at
  most one task is being processed at any time.
\<close>

theorem dispatch_is_fifo:
  assumes "queue qm = []" and "trace w = []"
  shows "\<exists>done. trace (snd (run acts (qm, w))) = invocations done \<and>
                done @ queue (fst (run acts (qm, w))) = enqueued acts"
  using run_invariant [of acts qm w] assms by simp

theorem dispatch_is_fifo_witness:
  "queue (TaskQueueManager_init\<lparr>running := True\<rparr>) = [] \<and> trace two_uploads = [] \<and>
   trace (snd (run [Enqueue ''a'', Enqueue ''b'', Dispatch ready_manager, Dispatch ready_manager]
                 (TaskQueueManager_init\<lparr>running := True\<rparr>, two_uploads)))
     = [Began ''a'', Ended ''a'', Began ''b'', Ended ''b''] \<and>
   (\<exists>done. trace (snd (run [Enqueue ''a'', Enqueue ''b'', Dispatch ready_manager, Dispatch ready_manager]
                          (TaskQueueManager_init\<lparr>running := True\<rparr>, two_uploads)))
              = invocations done \<and>
           done @ queue (fst (run [Enqueue ''a'', Enqueue ''b'', Dispatch ready_manager,
                                   Dispatch ready_manager]
                                  (TaskQueueManager_init\<lparr>running := True\<rparr>, two_uploads)))
              = enqueued [Enqueue ''a'', Enqueue ''b'', Dispatch ready_manager, Dispatch ready_manager])"
proof -
  let ?acts = "[Enqueue ''a'', Enqueue ''b'', Dispatch ready_manager, Dispatch ready_manager]"
  let ?qm = "TaskQueueManager_init\<lparr>running := True\<rparr>"
  have h1: "queue ?qm = []" by (simp add: TaskQueueManager_init_def)
  have h2: "trace two_uploads = []" by (simp add: two_uploads_def calm_world_def)
  note fifo = dispatch_is_fifo [OF h1 h2, of ?acts]
  then obtain ds where ds: "trace (snd (run ?acts (?qm, two_uploads))) = invocations ds"
    "ds @ queue (fst (run ?acts (?qm, two_uploads))) = enqueued ?acts" by blast
  have q: "queue (fst (run ?acts (?qm, two_uploads))) = []"
    by (simp add: add_task_def worker_iteration_def TaskQueueManager_init_def Let_def
          split: prod.splits sum.splits)
  from ds q have "ds = [''a'', ''b'']" by simp
  with ds have "trace (snd (run ?acts (?qm, two_uploads))) = [Began ''a'', Ended ''a'', Began ''b'', Ended ''b'']"
    by (simp add: invocations_def)
  with h1 h2 fifo show ?thesis by blast
qed

subsection \<open>Restart policy\<close>

lemma backoffs_simps [simp]:
  "backoffs (logger l m w) = backoffs w"
  "backoffs (sleep Backoff d w) = backoffs w @ [d]"
  "backoffs (sleep ReadyPoll d w) = backoffs w"
  "backoffs (sleep HealthInterval d w) = backoffs w"
  "backoffs (snd (returncode w)) = backoffs w"
  "backoffs (snd (http_call e a w)) = backoffs w"
  "backoffs (snd (spawn cmd w)) = backoffs w"
  by (simp_all add: backoffs_def logger_def sleep_def returncode_def http_call_def spawn_def)

lemma http_at_simps [simp]:
  "http_at (sleep s d w) = http_at w"
  "http_at (snd (returncode w)) = http_at w"
  "http_at (snd (http_call e a w)) = http_at w"
  "http_at (snd (spawn cmd w)) = http_at w"
  by (simp_all add: sleep_def returncode_def http_call_def spawn_def)


















end
